theory Spec2Isabelle
  imports Complex_Main
begin

section \<open>Calibration search of APHQ-ViT: data model\<close>

text \<open>
  The development embeds \<^verbatim>\<open>quantizers/uniform.py\<close>,
  \<^verbatim>\<open>Object-Detection/tools/quant_layers/matmul.py\<close> and
  \<^verbatim>\<open>utils/calibrator.py\<close>.

  Floating-point tensors are idealised: an element is a \<^typ>\<open>real\<close>, so rounding error,
  infinities and NaN are outside the model. A tensor of an attention matmul has the
  layout (samples, heads, rows, columns) and is a nested list; a quantizer parameter
  (scale, zero point) of shape (1, heads, 1, 1) or (1) is the list of its values, one
  per head slot.
\<close>

datatype error =
    AssertionError
  | NotImplementedError
  | EnvironmentError
  | ZeroDivisionError
  | ValueError
  | RuntimeError
  | AttributeError
  | TypeError
  | IndexError

type_synonym matrix = "real list list"
type_synonym sample = "matrix list"
type_synonym tensor = "sample list"
type_synonym param = "real list"

definition ebind :: "error + 'a \<Rightarrow> ('a \<Rightarrow> error + 'b) \<Rightarrow> error + 'b" where
  "ebind m f = (case m of Inl e \<Rightarrow> Inl e | Inr v \<Rightarrow> f v)"

fun mapM :: "('a \<Rightarrow> error + 'b) \<Rightarrow> 'a list \<Rightarrow> error + 'b list" where
  "mapM f [] = Inr []"
| "mapM f (x # xs) =
     (case f x of
        Inl e \<Rightarrow> Inl e
      | Inr y \<Rightarrow> (case mapM f xs of Inl e \<Rightarrow> Inl e | Inr ys \<Rightarrow> Inr (y # ys)))"

subsection \<open>Elementwise tensor operations\<close>

text \<open>\<^verbatim>\<open>torch.round\<close> rounds a tie to the even neighbour.\<close>

definition torch_round :: "real \<Rightarrow> real" where
  "torch_round x =
     (let f = \<lfloor>x\<rfloor>; d = x - of_int f
      in of_int (if d < 1 / 2 then f
                 else if 1 / 2 < d then f + 1
                 else if even f then f else f + 1))"

text \<open>
  Modelled from the spec: \<^verbatim>\<open>round_ste\<close> of \<^verbatim>\<open>quantizers/_ste.py\<close>, which is
  not among the sources. The spec makes it a straight-through estimator: the value of
  the forward pass is that of \<^verbatim>\<open>round\<close>, only the gradient differs.
\<close>

definition round_ste :: "real \<Rightarrow> real" where
  "round_ste x = torch_round x"

text \<open>\<^verbatim>\<open>x.clamp(lo, hi)\<close> is \<^verbatim>\<open>min(max(x, lo), hi)\<close>.\<close>

definition clamp :: "real \<Rightarrow> real \<Rightarrow> real \<Rightarrow> real" where
  "clamp lo hi v = min (max v lo) hi"

definition mat_map :: "(real \<Rightarrow> real) \<Rightarrow> matrix \<Rightarrow> matrix" where
  "mat_map f = map (map f)"

definition t_map :: "(real \<Rightarrow> real) \<Rightarrow> tensor \<Rightarrow> tensor" where
  "t_map f = map (map (mat_map f))"

text \<open>
  Broadcasting along one axis: equal sizes pair up, a size of one is repeated, any other
  pair of sizes is torch's shape error.
\<close>

definition bcast2 :: "('a \<Rightarrow> 'b \<Rightarrow> 'c) \<Rightarrow> 'a list \<Rightarrow> 'b list \<Rightarrow> error + 'c list" where
  "bcast2 f xs ys =
     (if length xs = length ys then Inr (map2 f xs ys)
      else if length xs = 1 then Inr (map (f (hd xs)) ys)
      else if length ys = 1 then Inr (map (\<lambda>x. f x (hd ys)) xs)
      else Inl RuntimeError)"

text \<open>
  A tensor of shape (b, heads, r, c) combined with a parameter of shape (1, heads, 1, 1)
  or (1): the parameter is broadcast over samples, rows and columns, and along the head
  axis by \<^const>\<open>bcast2\<close>.
\<close>

definition t_bop :: "(real \<Rightarrow> real \<Rightarrow> real) \<Rightarrow> tensor \<Rightarrow> param \<Rightarrow> error + tensor" where
  "t_bop f x p = mapM (\<lambda>s. bcast2 (\<lambda>m v. mat_map (\<lambda>e. f e v) m) s p) x"

text \<open>\<^verbatim>\<open>torch.where(rnd < drop_prob, a, b)\<close> on three tensors of one shape.\<close>

definition t_where :: "real \<Rightarrow> tensor \<Rightarrow> tensor \<Rightarrow> tensor \<Rightarrow> tensor" where
  "t_where dp rnd a b =
     map (\<lambda>(rs, as, bs).
       map (\<lambda>(rm, am, bm).
         map (\<lambda>(rr, ar, br).
           map (\<lambda>(r, x, y). if r < dp then x else y) (zip rr (zip ar br)))
           (zip rm (zip am bm)))
         (zip rs (zip as bs)))
       (zip rnd (zip a b))"

section \<open>The affine quantizer\<close>

text \<open>
  \<^verbatim>\<open>UniformQuantizer.__init__\<close> sets neither \<^verbatim>\<open>scale\<close> nor \<^verbatim>\<open>zero_point\<close>; the
  owning operator assigns them. An attribute that was never assigned is \<^const>\<open>None\<close>.
\<close>

record UniformQuantizer =
  sym :: bool
  n_bits :: int
  n_levels :: real
  channel_wise :: bool
  drop_prob :: real
  inited :: bool
  training_mode :: bool
  scale :: "param option"
  zero_point :: "param option"

definition UniformQuantizer_init :: "int \<Rightarrow> bool \<Rightarrow> bool \<Rightarrow> UniformQuantizer" where
  "UniformQuantizer_init bits symmetric cw =
     \<lparr> sym = symmetric,
       n_bits = bits,
       n_levels = power_int 2 (bits - 1),
       channel_wise = cw,
       drop_prob = 1,
       inited = False,
       training_mode = False,
       scale = None,
       zero_point = None \<rparr>"

definition init_training :: "UniformQuantizer \<Rightarrow> UniformQuantizer" where
  "init_training q = q\<lparr>training_mode := True\<rparr>"

definition end_training :: "UniformQuantizer \<Rightarrow> UniformQuantizer" where
  "end_training q = q\<lparr>training_mode := False\<rparr>"

text \<open>
  \<^verbatim>\<open>UniformQuantizer.forward\<close>. The argument \<open>rnd\<close> stands for
  \<^verbatim>\<open>torch.rand_like\<close>: it gives the uniform draws for a tensor, and is consulted only in
  the training sub-mode with \<^verbatim>\<open>drop_prob < 1.0\<close>.
\<close>

definition forward :: "(tensor \<Rightarrow> tensor) \<Rightarrow> UniformQuantizer \<Rightarrow> tensor \<Rightarrow> error + tensor" where
  "forward rnd q x =
     (if n_bits q = 32 then Inr x
      else if \<not> inited q then Inl AssertionError
      else
        (case scale q of
           None \<Rightarrow> Inl AttributeError
         | Some s \<Rightarrow>
             ebind (t_bop (/) x s) (\<lambda>x_div.
               let x_int = (if training_mode q then t_map round_ste x_div
                            else t_map torch_round x_div)
               in ebind
                    (if sym q then
                       (let x_quant = t_map (clamp (- n_levels q) (n_levels q - 1)) x_int
                        in t_bop (*) x_quant s)
                     else
                       (case zero_point q of
                          None \<Rightarrow> Inl AttributeError
                        | Some z \<Rightarrow>
                            ebind (t_bop (+) x_int (map torch_round z)) (\<lambda>x_sh.
                              let x_quant = t_map (clamp 0 (2 * n_levels q - 1)) x_sh
                              in ebind (t_bop (-) x_quant (map torch_round z)) (\<lambda>x_c.
                                   t_bop (*) x_c s))))
                    (\<lambda>x_dequant.
                       if training_mode q \<and> drop_prob q < 1
                       then Inr (t_where (drop_prob q) (rnd x) x_dequant x)
                       else Inr x_dequant))))"

section \<open>Tensor algebra used by the matmul operator\<close>

definition bcast2M :: "('a \<Rightarrow> 'b \<Rightarrow> error + 'c) \<Rightarrow> 'a list \<Rightarrow> 'b list \<Rightarrow> error + 'c list" where
  "bcast2M f xs ys = ebind (bcast2 f xs ys) (mapM (\<lambda>r. r))"

text \<open>An elementwise operation on two tensors, broadcasting on each of the four axes.\<close>

definition t_map2 :: "(real \<Rightarrow> real \<Rightarrow> real) \<Rightarrow> tensor \<Rightarrow> tensor \<Rightarrow> error + tensor" where
  "t_map2 f = bcast2M (bcast2M (bcast2M (bcast2 f)))"

text \<open>The product of an (r, k) and a (k, c) matrix; other inner sizes are a shape error.\<close>

definition mat_mul :: "matrix \<Rightarrow> matrix \<Rightarrow> error + matrix" where
  "mat_mul a b =
     (if list_all (\<lambda>row. length row = length b) a
      then Inr (map (\<lambda>row. map (\<lambda>col. sum_list (map2 (*) row col)) (transpose b)) a)
      else Inl RuntimeError)"

text \<open>\<^verbatim>\<open>A @ B\<close>: a matrix product per sample and head, the leading axes broadcast.\<close>

definition t_matmul :: "tensor \<Rightarrow> tensor \<Rightarrow> error + tensor" where
  "t_matmul = bcast2M (bcast2M mat_mul)"

definition flatten :: "tensor \<Rightarrow> real list" where
  "flatten x = concat (concat (concat x))"

definition numel :: "tensor \<Rightarrow> nat" where
  "numel x = length (flatten x)"

fun refill_rows :: "real list \<Rightarrow> matrix \<Rightarrow> matrix" where
  "refill_rows vs [] = []"
| "refill_rows vs (r # rs) = take (length r) vs # refill_rows (drop (length r) vs) rs"

fun refill_mats :: "real list \<Rightarrow> sample \<Rightarrow> sample" where
  "refill_mats vs [] = []"
| "refill_mats vs (m # ms) = refill_rows vs m # refill_mats (drop (length (concat m)) vs) ms"

fun refill_samples :: "real list \<Rightarrow> tensor \<Rightarrow> tensor" where
  "refill_samples vs [] = []"
| "refill_samples vs (s # ss) =
     refill_mats vs s # refill_samples (drop (length (concat (concat s))) vs) ss"

text \<open>
  \<^verbatim>\<open>g.reshape_as(t)\<close>: the elements of \<open>g\<close> in row-major order, laid out in the
  shape of \<open>t\<close>; it needs as many elements as \<open>t\<close> has.
\<close>

definition reshape_as :: "tensor \<Rightarrow> tensor \<Rightarrow> error + tensor" where
  "reshape_as g t =
     (if numel g = numel t then Inr (refill_samples (flatten g) t) else Inl RuntimeError)"

section \<open>The similarity scorer\<close>

text \<open>
  \<^verbatim>\<open>PTQSLQuantMatMul._get_similarity\<close>, for the reference output and the simulated
  output of one candidate. \<^verbatim>\<open>raw_grad\<close> is \<^const>\<open>None\<close> for Python's \<^verbatim>\<open>None\<close>.
  In Python \<^verbatim>\<open>-x ** 2\<close> is \<^verbatim>\<open>-(x ** 2)\<close>.
\<close>

definition normalize_grad :: "tensor \<Rightarrow> tensor" where
  "normalize_grad g =
     t_map (\<lambda>v. \<bar>v\<bar> * sqrt (real (numel g) / sum_list (map (\<lambda>e. e ^ 2) (flatten g)))) g"

definition get_similarity :: "tensor \<Rightarrow> tensor \<Rightarrow> string \<Rightarrow> tensor option \<Rightarrow> error + tensor" where
  "get_similarity tensor_raw tensor_sim metric raw_grad =
     (if metric = ''mae'' then
        ebind (t_map2 (-) tensor_raw tensor_sim) (\<lambda>d. Inr (t_map (\<lambda>v. - \<bar>v\<bar>) d))
      else if metric = ''mse'' then
        ebind (t_map2 (-) tensor_raw tensor_sim) (\<lambda>d. Inr (t_map (\<lambda>v. - (v ^ 2)) d))
      else if metric \<in> set [''hessian'', ''jacobian'', ''hessian_new''] then
        (case raw_grad of
           None \<Rightarrow> Inl AssertionError
         | Some g0 \<Rightarrow>
             ebind (reshape_as g0 tensor_raw) (\<lambda>g1.
               let g = normalize_grad g1
               in if metric = ''hessian'' then
                    ebind (t_map2 (-) tensor_raw tensor_sim) (\<lambda>d.
                      ebind (t_map2 (*) g d) (\<lambda>p. Inr (t_map (\<lambda>v. - (v ^ 2)) p)))
                  else if metric = ''jacobian'' then
                    ebind (t_map2 (-) tensor_raw tensor_sim) (\<lambda>d.
                      ebind (t_map2 (*) (t_map abs g) (t_map abs d)) (\<lambda>p. Inr (t_map uminus p)))
                  else
                    ebind (t_map2 (-) tensor_raw tensor_sim) (\<lambda>d.
                      ebind (t_map2 (*) (t_map abs g) (t_map (\<lambda>v. v ^ 2) d)) (\<lambda>p.
                        Inr (t_map uminus p)))))
      else Inl NotImplementedError)"

section \<open>The matmul operator\<close>

text \<open>
  An attribute of a Python object: removed by \<^verbatim>\<open>del\<close>, holding \<^verbatim>\<open>None\<close>, or
  holding a value.
\<close>

datatype 'a attr = Absent | PyNone | Value 'a

text \<open>
  The state of an \<^verbatim>\<open>AsymmetricallyBatchingQuantMatMul\<close>, with the attributes of its
  base classes. \<^verbatim>\<open>raw_input\<close> is the pair of the stacked left and right operands;
  \<^verbatim>\<open>calib_size\<close> and \<^verbatim>\<open>parallel_eq_n\<close> exist only once
  \<^verbatim>\<open>_initialize_calib_parameters\<close> has run. The captured tensors of one operator
  come from successful products \<^verbatim>\<open>A @ B\<close>, so they are rectangular and agree in
  their numbers of samples and heads.
\<close>

record MatMul =
  mode :: string
  A_quantizer :: UniformQuantizer
  B_quantizer :: UniformQuantizer
  raw_input :: "(tensor \<times> tensor) attr"
  raw_out :: "tensor attr"
  tmp_input :: "(tensor list \<times> tensor list) option"
  tmp_out :: "tensor list option"
  calibrated :: bool
  metric :: string
  search_round :: nat
  eq_n :: nat
  raw_grad :: "tensor attr"
  tmp_grad :: "tensor list option"
  head_channel_wise :: bool
  num_heads :: nat
  input_shape_lenth :: nat
  calib_batch_size :: nat
  calib_size :: "nat option"
  parallel_eq_n :: "nat option"

text \<open>
  What the operator asks of its surroundings: whether CUDA is there and how much memory
  the device has, the longest reduced axis \<^verbatim>\<open>torch.quantile\<close> accepts before it
  raises, and the draws of \<^verbatim>\<open>torch.rand_like\<close>.
\<close>

record env =
  cuda_is_available :: bool
  total_memory :: nat
  quantile_limit :: nat
  rand_like :: "tensor \<Rightarrow> tensor"

text \<open>
  The constructor chain ends in \<^verbatim>\<open>AsymmetricallyBatchingQuantMatMul.__init__\<close>, which
  replaces both quantizers by asymmetric ones and gives them zero parameters of shape
  (1) or (1, num_heads, 1, ...).
\<close>

definition target_param :: "bool \<Rightarrow> nat \<Rightarrow> param" where
  "target_param hcw heads = (if \<not> hcw then [0] else replicate heads 0)"

definition AsymmetricallyBatchingQuantMatMul_init ::
  "int \<Rightarrow> int \<Rightarrow> string \<Rightarrow> string \<Rightarrow> nat \<Rightarrow> nat \<Rightarrow> nat \<Rightarrow> bool \<Rightarrow> nat \<Rightarrow> nat \<Rightarrow> MatMul" where
  "AsymmetricallyBatchingQuantMatMul_init A_bit B_bit md mt cbs sr en hcw heads shape_len =
     \<lparr> mode = md,
       A_quantizer = (UniformQuantizer_init A_bit False hcw)
          \<lparr> scale := Some (target_param hcw heads), zero_point := Some (target_param hcw heads) \<rparr>,
       B_quantizer = (UniformQuantizer_init B_bit False hcw)
          \<lparr> scale := Some (target_param hcw heads), zero_point := Some (target_param hcw heads) \<rparr>,
       raw_input = PyNone,
       raw_out = PyNone,
       tmp_input = None,
       tmp_out = None,
       calibrated = False,
       metric = mt,
       search_round = sr,
       eq_n = en,
       raw_grad = PyNone,
       tmp_grad = None,
       head_channel_wise = hcw,
       num_heads = heads,
       input_shape_lenth = shape_len,
       calib_batch_size = cbs,
       calib_size = None,
       parallel_eq_n = None \<rparr>"

definition quant_input_A :: "env \<Rightarrow> MatMul \<Rightarrow> tensor \<Rightarrow> error + tensor" where
  "quant_input_A ev m x = forward (rand_like ev) (A_quantizer m) x"

definition quant_input_B :: "env \<Rightarrow> MatMul \<Rightarrow> tensor \<Rightarrow> error + tensor" where
  "quant_input_B ev m x = forward (rand_like ev) (B_quantizer m) x"

definition quant_forward :: "env \<Rightarrow> MatMul \<Rightarrow> tensor \<Rightarrow> tensor \<Rightarrow> error + tensor" where
  "quant_forward ev m A B =
     (if \<not> calibrated m then Inl AssertionError
      else ebind (quant_input_A ev m A) (\<lambda>a.
             ebind (quant_input_B ev m B) (\<lambda>b. t_matmul a b)))"

definition u_perturbation_forward :: "tensor \<Rightarrow> tensor \<Rightarrow> error + tensor" where
  "u_perturbation_forward A B =
     ebind (t_matmul A B) (\<lambda>out. Inr (t_map (\<lambda>v. v + 1 * (1 / 10 ^ 6)) out))"

definition d_perturbation_forward :: "tensor \<Rightarrow> tensor \<Rightarrow> error + tensor" where
  "d_perturbation_forward A B =
     ebind (t_matmul A B) (\<lambda>out. Inr (t_map (\<lambda>v. v - 1 * (1 / 10 ^ 6)) out))"

definition MatMul_forward :: "env \<Rightarrow> MatMul \<Rightarrow> tensor \<Rightarrow> tensor \<Rightarrow> error + tensor" where
  "MatMul_forward ev m A B =
     (if mode m = ''raw'' then t_matmul A B
      else if mode m = ''quant_forward'' then quant_forward ev m A B
      else if mode m = ''u_perturbation'' then u_perturbation_forward A B
      else if mode m = ''d_perturbation'' then d_perturbation_forward A B
      else Inl NotImplementedError)"

section \<open>The memory budget\<close>

text \<open>
  Line 143: \<^verbatim>\<open>max(int((memory / 4) // numel), 1)\<close>. Floor division of a float by
  zero raises \<^verbatim>\<open>ZeroDivisionError\<close>.
\<close>

definition memory_parallel_eq_n :: "nat \<Rightarrow> nat \<Rightarrow> error + nat" where
  "memory_parallel_eq_n memory n =
     (if n = 0 then Inl ZeroDivisionError
      else Inr (max (nat \<lfloor>(real memory / 4) / real n\<rfloor>) 1))"

text \<open>
  Line 144:
  \<^verbatim>\<open>math.ceil(eq_n * 1.0 / math.ceil(eq_n * 1.0 / parallel_eq_n))\<close>.
\<close>

definition balanced_parallel_eq_n :: "nat \<Rightarrow> nat \<Rightarrow> error + nat" where
  "balanced_parallel_eq_n n p =
     (if p = 0 then Inl ZeroDivisionError
      else
        (let g = \<lceil>real n * 1 / real p\<rceil>
         in if g = 0 then Inl ZeroDivisionError
            else Inr (nat \<lceil>real n * 1 / real_of_int g\<rceil>)))"

definition initialize_calib_parameters :: "env \<Rightarrow> MatMul \<Rightarrow> error + MatMul" where
  "initialize_calib_parameters ev m =
     (case raw_input m of
        Absent \<Rightarrow> Inl AttributeError
      | PyNone \<Rightarrow> Inl TypeError
      | Value (A, B) \<Rightarrow>
          (let cs = length A
           in if \<not> cuda_is_available ev then Inl EnvironmentError
              else
                (let memory = total_memory ev div 2
                 in case raw_out m of
                      Absent \<Rightarrow> Inl AttributeError
                    | PyNone \<Rightarrow> Inl TypeError
                    | Value out \<Rightarrow>
                        (let n = 4 * numel (take cs A) + 4 * numel (take cs B)
                                 + 8 * numel (take (calib_batch_size m) out)
                         in ebind (memory_parallel_eq_n memory n) (\<lambda>p.
                              ebind (balanced_parallel_eq_n (eq_n m) p) (\<lambda>q.
                                Inr (m\<lparr>calib_size := Some cs, parallel_eq_n := Some q\<rparr>)))))))"

section \<open>The candidate generator\<close>

text \<open>
  \<^verbatim>\<open>(i / d) ** k\<close> on Python floats, for the base of a percentile level: division
  by zero raises, and a zero base is 1 for \<open>k = 0\<close>, raises for a negative \<open>k\<close>
  and is 0 otherwise.
\<close>

definition pow_level :: "nat \<Rightarrow> nat \<Rightarrow> real \<Rightarrow> error + real" where
  "pow_level i d k =
     (if d = 0 then Inl ZeroDivisionError
      else if i = 0 then
        (if k = 0 then Inr 1 else if k < 0 then Inl ZeroDivisionError else Inr 0)
      else Inr ((real i / real d) powr k))"

text \<open>
  Line 244: \<^verbatim>\<open>[l + (r - l) * (i / (eq_n - 1))**k for i in range(eq_n)] + [1.0]\<close>.
\<close>

definition percentile_levels :: "nat \<Rightarrow> real \<Rightarrow> real \<Rightarrow> real \<Rightarrow> error + real list" where
  "percentile_levels n l r k =
     ebind (mapM (\<lambda>i. ebind (pow_level i (n - 1) k) (\<lambda>v. Inr (l + (r - l) * v))) [0..<n])
       (\<lambda>ps. Inr (ps @ [1]))"

text \<open>
  \<^verbatim>\<open>torch.quantile\<close> of a non-empty row with linear interpolation, for a level
  \<open>q\<close> between 0 and 1 as the generator's levels are: the value at rank
  \<open>q * (n - 1)\<close> of the sorted row.
\<close>

definition quantile :: "real list \<Rightarrow> real \<Rightarrow> real" where
  "quantile xs q =
     (let srt = sort xs;
          rank = q * real (length xs - 1);
          lo = nat \<lfloor>rank\<rfloor>;
          hi = nat \<lceil>rank\<rceil>;
          w = rank - real lo
      in srt ! lo + w * (srt ! hi - srt ! lo))"

definition mean :: "real list \<Rightarrow> real" where
  "mean xs = sum_list xs / real (length xs)"

text \<open>\<^verbatim>\<open>row.view(count, -1)\<close>: a row cut into \<open>count\<close> pieces of \<open>sz\<close> elements.\<close>

fun split_n :: "nat \<Rightarrow> nat \<Rightarrow> 'a list \<Rightarrow> 'a list list" where
  "split_n 0 sz xs = []"
| "split_n (Suc c) sz xs = take sz xs # split_n c sz (drop sz xs)"

text \<open>
  The rows the quantiles are taken over: with per-head granularity the tensor is
  transposed to (heads, samples, ...) and each head is flattened; otherwise the whole
  tensor is one row.
\<close>

definition quantile_rows :: "bool \<Rightarrow> tensor \<Rightarrow> real list list" where
  "quantile_rows hcw x =
     (if hcw then map (\<lambda>hs. concat (map concat hs)) (transpose x) else [flatten x])"

definition row_len :: "real list list \<Rightarrow> nat" where
  "row_len rows = (case rows of [] \<Rightarrow> 0 | r # _ \<Rightarrow> length r)"

text \<open>
  The quantiles of every level, for rows viewed as (slots, mini_batch_size, sz), averaged
  over the mini batches: the result has one entry per level, each a list over the slots.
\<close>

definition quantile_means :: "real list \<Rightarrow> real list list \<Rightarrow> nat \<Rightarrow> real list list" where
  "quantile_means pct rows mb =
     map (\<lambda>q. map (\<lambda>row. mean (map (\<lambda>c. quantile c q) (split_n mb (length row div mb) row))) rows)
       pct"

text \<open>
  Lines 251 to 258. \<^verbatim>\<open>torch.quantile\<close> raises when the reduced axis is longer than
  the device takes; the handler doubles \<^verbatim>\<open>mini_batch_size\<close> and views the rows
  again, and that view raises, out of the loop, when the row length is no multiple of the
  new \<^verbatim>\<open>mini_batch_size\<close>.
\<close>

function quantile_loop ::
  "nat \<Rightarrow> real list \<Rightarrow> real list list \<Rightarrow> nat \<Rightarrow> error + (real list list \<times> real list list)" where
  "quantile_loop limit pct rows mb =
     (if row_len rows div mb \<le> limit
      then Inr (quantile_means pct rows mb, quantile_means (map (\<lambda>q. 1 - q) pct) rows mb)
      else if (2 * mb) dvd row_len rows then quantile_loop limit pct rows (2 * mb)
      else Inl RuntimeError)"
  by pat_completeness auto
termination
proof (relation "measure (\<lambda>(limit, pct, rows, mb). row_len rows - mb)")
  show "wf (measure (\<lambda>(limit, pct, rows, mb). row_len rows - mb))"
    by simp
next
  fix limit :: nat and pct :: "real list" and rows :: "real list list" and mb :: nat
  assume big: "\<not> row_len rows div mb \<le> limit" and dv: "2 * mb dvd row_len rows"
  from big have pos: "0 < row_len rows div mb"
    by simp
  then have mb_pos: "0 < mb"
    by (cases "mb = 0") simp_all
  from pos have "0 < row_len rows"
    by (cases "row_len rows = 0") simp_all
  with dv have "2 * mb \<le> row_len rows"
    by (simp add: dvd_imp_le)
  with mb_pos show "((limit, pct, rows, 2 * mb), (limit, pct, rows, mb))
      \<in> measure (\<lambda>(limit, pct, rows, mb). row_len rows - mb)"
    by simp
qed

text \<open>
  \<^verbatim>\<open>calculate_percentile_candidates\<close>. The first view, to (slots, 1, -1), raises on a
  tensor without elements. The result has the shape (eq_n + 1, 1, slots, 1, ...): a
  list over the levels of lists over the slots.
\<close>

definition calculate_percentile_candidates ::
  "env \<Rightarrow> MatMul \<Rightarrow> tensor \<Rightarrow> real \<Rightarrow> real \<Rightarrow> real \<Rightarrow> error + (real list list \<times> real list list)" where
  "calculate_percentile_candidates ev m x l r k =
     ebind (percentile_levels (eq_n m) l r k) (\<lambda>pct.
       if numel x = 0 then Inl RuntimeError
       else quantile_loop (quantile_limit ev) pct (quantile_rows (head_channel_wise m) x) 1)"

text \<open>
  Lines 266 to 269 and 288 to 289: scale and zero point of every candidate, from the
  upper and lower percentiles. The first axis broadcasts, since a refinement phase holds
  one endpoint in a tensor with a single entry.
\<close>

definition cand_scale :: "UniformQuantizer \<Rightarrow> real list list \<Rightarrow> real list list \<Rightarrow> error + real list list" where
  "cand_scale q uppers lowers =
     bcast2M (bcast2 (\<lambda>u lw. (u - lw) / (2 * n_levels q - 1))) uppers lowers"

definition cand_zero_point :: "real list list \<Rightarrow> real list list \<Rightarrow> error + real list list" where
  "cand_zero_point lowers scales =
     bcast2M (bcast2 (\<lambda>lw sc. - torch_round (lw / sc))) lowers scales"

section \<open>The per-side search\<close>

text \<open>\<^verbatim>\<open>xs[st:ed]\<close> for non-negative bounds.\<close>

definition slice :: "nat \<Rightarrow> nat \<Rightarrow> 'a list \<Rightarrow> 'a list" where
  "slice st ed xs = drop st (take ed xs)"

text \<open>\<^verbatim>\<open>range(i, n, step)\<close> for a positive step; a step of zero is refused by the callers.\<close>

function py_range :: "nat \<Rightarrow> nat \<Rightarrow> nat \<Rightarrow> nat list" where
  "py_range i n step = (if step = 0 \<or> n \<le> i then [] else i # py_range (i + step) n step)"
  by pat_completeness auto
termination
  by (relation "measure (\<lambda>(i, n, step). n - i)") auto

text \<open>The first index of a greatest element, as \<^verbatim>\<open>torch.argmax\<close> breaks ties.\<close>

fun argmax :: "real list \<Rightarrow> nat" where
  "argmax [] = 0"
| "argmax [x] = 0"
| "argmax (x # y # ys) =
     (let j = argmax (y # ys) in if x < (y # ys) ! j then Suc j else 0)"

text \<open>The sum of vectors of one length: \<^verbatim>\<open>sum\<close> along the axis that lists them.\<close>

definition vsum :: "real list list \<Rightarrow> real list" where
  "vsum vs = map sum_list (transpose vs)"

text \<open>
  Lines 184 and 185 (222 and 223 for B), for one candidate of the group: the searched
  operand is quantized with the candidate's scale and zero point and the levels of the
  searched side's quantizer.
\<close>

definition candidate_sim :: "UniformQuantizer \<Rightarrow> tensor \<Rightarrow> param \<Rightarrow> param \<Rightarrow> error + tensor" where
  "candidate_sim q x cur_scale cur_zero_point =
     ebind (t_bop (/) x cur_scale) (\<lambda>x_div.
       ebind (t_bop (+) (t_map torch_round x_div) cur_zero_point) (\<lambda>x_sh.
         let x_quant = t_map (clamp 0 (2 * n_levels q - 1)) x_sh
         in ebind (t_bop (-) x_quant cur_zero_point) (\<lambda>x_c. t_bop (*) x_c cur_scale)))"

text \<open>
  Lines 188 to 192: the mean over rows and columns (and heads, without per-head
  granularity), then the sum over the samples of the chunk. One value per slot.
\<close>

definition reduce_similarity :: "bool \<Rightarrow> tensor \<Rightarrow> real list" where
  "reduce_similarity hcw similarity =
     (if hcw then vsum (map (map (\<lambda>mt. mean (concat mt))) similarity)
      else [sum_list (map (\<lambda>s. mean (concat (concat s))) similarity)])"

text \<open>
  The score of one candidate for the left operand against the chunk: \<open>B_sim\<close> is the
  right operand as the caller prepared it.
\<close>

definition eval_A_candidate ::
  "MatMul \<Rightarrow> tensor \<Rightarrow> tensor \<Rightarrow> tensor \<Rightarrow> tensor option \<Rightarrow> param \<times> param \<Rightarrow> error + real list" where
  "eval_A_candidate m A B_sim out grad c =
     ebind (candidate_sim (A_quantizer m) A (fst c) (snd c)) (\<lambda>A_sim.
       ebind (t_matmul A_sim B_sim) (\<lambda>out_sim.
         ebind (get_similarity out out_sim (metric m) grad) (\<lambda>similarity.
           Inr (reduce_similarity (head_channel_wise m) similarity))))"

definition eval_B_candidate ::
  "MatMul \<Rightarrow> tensor \<Rightarrow> tensor \<Rightarrow> tensor \<Rightarrow> tensor option \<Rightarrow> param \<times> param \<Rightarrow> error + real list" where
  "eval_B_candidate m A_sim B out grad c =
     ebind (candidate_sim (B_quantizer m) B (fst c) (snd c)) (\<lambda>B_sim.
       ebind (t_matmul A_sim B_sim) (\<lambda>out_sim.
         ebind (get_similarity out out_sim (metric m) grad) (\<lambda>similarity.
           Inr (reduce_similarity (head_channel_wise m) similarity))))"

text \<open>
  The loop over the groups of candidates, lines 178 to 195: the group from \<open>p_st\<close> takes
  the candidates \<^verbatim>\<open>[p_st:p_ed]\<close>; the scores of all groups are concatenated, which
  raises when there is no group.
\<close>

definition eval_groups ::
  "(param \<times> param \<Rightarrow> error + real list) \<Rightarrow> nat \<Rightarrow> nat \<Rightarrow> real list list \<Rightarrow> real list list
     \<Rightarrow> error + real list list" where
  "eval_groups score n par scale_candidates zero_point_candidates =
     (if par = 0 then Inl ValueError
      else
        ebind
          (mapM (\<lambda>p_st.
             let p_ed = min n (p_st + par)
             in mapM score (zip (slice p_st p_ed scale_candidates)
                                (slice p_st p_ed zero_point_candidates)))
           (py_range 0 n par))
          (\<lambda>similarities. if similarities = [] then Inl RuntimeError
                            else Inr (concat similarities)))"

definition grad_chunk :: "tensor attr \<Rightarrow> nat \<Rightarrow> nat \<Rightarrow> error + tensor option" where
  "grad_chunk g b_st b_ed =
     (case g of
        Absent \<Rightarrow> Inl AttributeError
      | PyNone \<Rightarrow> Inr None
      | Value t \<Rightarrow> Inr (Some (slice b_st b_ed t)))"

definition search_A_chunk ::
  "env \<Rightarrow> MatMul \<Rightarrow> real list list \<Rightarrow> real list list \<Rightarrow> nat \<Rightarrow> nat \<Rightarrow> tensor \<Rightarrow> tensor \<Rightarrow> nat
     \<Rightarrow> error + real list list" where
  "search_A_chunk ev m sc zc cs par A_all B_all b_st =
     (let b_ed = min cs (b_st + calib_batch_size m);
          A = slice b_st b_ed A_all;
          B = slice b_st b_ed B_all
      in ebind (quant_input_B ev m B) (\<lambda>B_sim.
           case raw_out m of
             Absent \<Rightarrow> Inl AttributeError
           | PyNone \<Rightarrow> Inl TypeError
           | Value out_all \<Rightarrow>
               ebind (grad_chunk (raw_grad m) b_st b_ed) (\<lambda>grad.
                 eval_groups (eval_A_candidate m A B_sim (slice b_st b_ed out_all) grad)
                   (eq_n m) par sc zc)))"

definition search_B_chunk ::
  "env \<Rightarrow> MatMul \<Rightarrow> real list list \<Rightarrow> real list list \<Rightarrow> nat \<Rightarrow> nat \<Rightarrow> tensor \<Rightarrow> tensor \<Rightarrow> nat
     \<Rightarrow> error + real list list" where
  "search_B_chunk ev m sc zc cs par A_all B_all b_st =
     (let b_ed = min cs (b_st + calib_batch_size m);
          A = slice b_st b_ed A_all;
          B = slice b_st b_ed B_all
      in ebind (quant_input_A ev m A) (\<lambda>A_sim.
           case raw_out m of
             Absent \<Rightarrow> Inl AttributeError
           | PyNone \<Rightarrow> Inl TypeError
           | Value out_all \<Rightarrow>
               ebind (grad_chunk (raw_grad m) b_st b_ed) (\<lambda>grad.
                 eval_groups (eval_B_candidate m A_sim B (slice b_st b_ed out_all) grad)
                   (eq_n m) par sc zc)))"

text \<open>
  Lines 197 and 198: the scores of the chunks are summed per candidate and slot, and the
  best candidate of every slot is the first that reaches the greatest total.
\<close>

definition best_indices :: "real list list list \<Rightarrow> error + nat list" where
  "best_indices batch_similarities =
     (if batch_similarities = [] then Inl RuntimeError
      else
        (let total = map vsum (transpose batch_similarities)
         in if total = [] then Inl RuntimeError
            else Inr (map argmax (transpose total))))"

text \<open>
  \<^verbatim>\<open>torch.gather(candidates, dim=0, index=best_index)\<close>: slot \<open>h\<close> of the result is
  slot \<open>h\<close> of the candidate that \<open>best_index\<close> names for it.
\<close>

definition gather :: "real list list \<Rightarrow> nat list \<Rightarrow> error + param" where
  "gather candidates best_index =
     (if length best_index \<le> row_len candidates
         \<and> list_all (\<lambda>i. i < length candidates) best_index
      then Inr (map (\<lambda>(h, i). candidates ! i ! h) (zip [0..<length best_index] best_index))
      else Inl RuntimeError)"

text \<open>
  \<^verbatim>\<open>param.copy_(value.view(param.shape))\<close>: the parameter must exist and have as many
  elements as the value.
\<close>

definition copy_view :: "param option \<Rightarrow> param \<Rightarrow> error + param option" where
  "copy_view dst src =
     (case dst of
        None \<Rightarrow> Inl AttributeError
      | Some d \<Rightarrow> if length src = length d then Inr (Some src) else Inl RuntimeError)"

definition chunk_inputs :: "MatMul \<Rightarrow> error + (nat \<times> nat \<times> tensor \<times> tensor)" where
  "chunk_inputs m =
     (case calib_size m of
        None \<Rightarrow> Inl AttributeError
      | Some cs \<Rightarrow>
          if calib_batch_size m = 0 then Inl ValueError
          else
            (case raw_input m of
               Absent \<Rightarrow> Inl AttributeError
             | PyNone \<Rightarrow> Inl TypeError
             | Value (A_all, B_all) \<Rightarrow>
                 (case parallel_eq_n m of
                    None \<Rightarrow> Inl AttributeError
                  | Some par \<Rightarrow> Inr (cs, par, A_all, B_all))))"

definition search_best_A_scale ::
  "env \<Rightarrow> MatMul \<Rightarrow> real list list \<Rightarrow> real list list \<Rightarrow> error + (MatMul \<times> nat list)" where
  "search_best_A_scale ev m A_scale_candidates A_zero_point_candidates =
     ebind (chunk_inputs m) (\<lambda>(cs, par, A_all, B_all).
       ebind (mapM (search_A_chunk ev m A_scale_candidates A_zero_point_candidates
                      cs par A_all B_all)
                (py_range 0 cs (calib_batch_size m))) (\<lambda>batch_similarities.
         ebind (best_indices batch_similarities) (\<lambda>best_index.
           ebind (gather A_scale_candidates best_index) (\<lambda>tmp_A_scale.
             ebind (gather A_zero_point_candidates best_index) (\<lambda>tmp_A_zero_point.
               ebind (copy_view (scale (A_quantizer m)) tmp_A_scale) (\<lambda>s'.
                 ebind (copy_view (zero_point (A_quantizer m)) tmp_A_zero_point) (\<lambda>z'.
                   Inr (m\<lparr>A_quantizer := (A_quantizer m)\<lparr>scale := s', zero_point := z'\<rparr>\<rparr>,
                        best_index))))))))"

definition search_best_B_scale ::
  "env \<Rightarrow> MatMul \<Rightarrow> real list list \<Rightarrow> real list list \<Rightarrow> error + (MatMul \<times> nat list)" where
  "search_best_B_scale ev m B_scale_candidates B_zero_point_candidates =
     ebind (chunk_inputs m) (\<lambda>(cs, par, A_all, B_all).
       ebind (mapM (search_B_chunk ev m B_scale_candidates B_zero_point_candidates
                      cs par A_all B_all)
                (py_range 0 cs (calib_batch_size m))) (\<lambda>batch_similarities.
         ebind (best_indices batch_similarities) (\<lambda>best_index.
           ebind (gather B_scale_candidates best_index) (\<lambda>tmp_B_scale.
             ebind (gather B_zero_point_candidates best_index) (\<lambda>tmp_B_zero_point.
               ebind (copy_view (scale (B_quantizer m)) tmp_B_scale) (\<lambda>s'.
                 ebind (copy_view (zero_point (B_quantizer m)) tmp_B_zero_point) (\<lambda>z'.
                   Inr (m\<lparr>B_quantizer := (B_quantizer m)\<lparr>scale := s', zero_point := z'\<rparr>\<rparr>,
                        best_index))))))))"

section \<open>The search controller\<close>

text \<open>\<^verbatim>\<open>xs[-2]\<close>.\<close>

definition index_neg2 :: "'a list \<Rightarrow> error + 'a" where
  "index_neg2 xs = (if length xs < 2 then Inl IndexError else Inr (xs ! (length xs - 2)))"

text \<open>
  \<^verbatim>\<open>param.data.copy_(value)\<close>: the value is broadcast to the parameter. Shapes are
  compared by their numbers of slots.
\<close>

definition copy_data :: "param option \<Rightarrow> param \<Rightarrow> error + param option" where
  "copy_data dst src =
     (case dst of
        None \<Rightarrow> Inl AttributeError
      | Some d \<Rightarrow>
          if length src = length d then Inr (Some src)
          else if length src = 1 then Inr (Some (replicate (length d) (hd src)))
          else Inl RuntimeError)"

text \<open>The candidate tensors that \<^verbatim>\<open>hyperparameter_searching\<close> holds in local variables.\<close>

record candidates =
  A_uppers_candidates :: "real list list"
  A_lowers_candidates :: "real list list"
  B_uppers_candidates :: "real list list"
  B_lowers_candidates :: "real list list"
  A_scale_candidates :: "real list list"
  A_zero_point_candidates :: "real list list"
  B_scale_candidates :: "real list list"
  B_zero_point_candidates :: "real list list"

text \<open>Lines 270 to 275.\<close>

definition seed_parameters :: "MatMul \<Rightarrow> candidates \<Rightarrow> error + MatMul" where
  "seed_parameters m c =
     ebind (index_neg2 (A_scale_candidates c)) (\<lambda>a_s.
       ebind (copy_data (scale (A_quantizer m)) a_s) (\<lambda>a_scale.
         ebind (index_neg2 (A_zero_point_candidates c)) (\<lambda>a_z.
           ebind (copy_data (zero_point (A_quantizer m)) a_z) (\<lambda>a_zero_point.
             ebind (index_neg2 (B_scale_candidates c)) (\<lambda>b_s.
               ebind (copy_data (scale (B_quantizer m)) b_s) (\<lambda>b_scale.
                 ebind (index_neg2 (B_zero_point_candidates c)) (\<lambda>b_z.
                   ebind (copy_data (zero_point (B_quantizer m)) b_z) (\<lambda>b_zero_point.
                     Inr (m\<lparr> A_quantizer := (A_quantizer m)
                                  \<lparr>scale := a_scale, zero_point := a_zero_point, inited := True\<rparr>,
                              B_quantizer := (B_quantizer m)
                                  \<lparr>scale := b_scale, zero_point := b_zero_point, inited := True\<rparr>
                            \<rparr>)))))))))"

text \<open>
  Lines 263 to 275: the memory budget, the percentile grids of both operands with
  \<open>l = 0.999\<close>, \<open>r = 0.99999\<close> and \<open>k = 0.1\<close>, the first candidates, and the seed.
\<close>

definition seed_stage :: "env \<Rightarrow> MatMul \<Rightarrow> error + (MatMul \<times> candidates)" where
  "seed_stage ev m =
     ebind (initialize_calib_parameters ev m) (\<lambda>m1.
       case raw_input m1 of
         Absent \<Rightarrow> Inl AttributeError
       | PyNone \<Rightarrow> Inl TypeError
       | Value (A, B) \<Rightarrow>
           ebind (calculate_percentile_candidates ev m1 A (999 / 1000) (99999 / 100000) (1 / 10))
             (\<lambda>(A_up, A_lo).
           ebind (calculate_percentile_candidates ev m1 B (999 / 1000) (99999 / 100000) (1 / 10))
             (\<lambda>(B_up, B_lo).
           ebind (cand_scale (A_quantizer m1) A_up A_lo) (\<lambda>A_sc.
           ebind (cand_zero_point A_lo A_sc) (\<lambda>A_zp.
           ebind (cand_scale (B_quantizer m1) B_up B_lo) (\<lambda>B_sc.
           ebind (cand_zero_point B_lo B_sc) (\<lambda>B_zp.
             let c = \<lparr> A_uppers_candidates = A_up, A_lowers_candidates = A_lo,
                       B_uppers_candidates = B_up, B_lowers_candidates = B_lo,
                       A_scale_candidates = A_sc, A_zero_point_candidates = A_zp,
                       B_scale_candidates = B_sc, B_zero_point_candidates = B_zp \<rparr>
             in ebind (seed_parameters m1 c) (\<lambda>m2. Inr (m2, c)))))))))"

fun foldM :: "('s \<Rightarrow> 'a \<Rightarrow> error + 's) \<Rightarrow> 's \<Rightarrow> 'a list \<Rightarrow> error + 's" where
  "foldM f s [] = Inr s"
| "foldM f s (x # xs) = (case f s x of Inl e \<Rightarrow> Inl e | Inr s' \<Rightarrow> foldM f s' xs)"

text \<open>
  One pass of the loop over \<^verbatim>\<open>ee\<close>, lines 282 to 290 (293 to 301 for B): for an even
  \<^verbatim>\<open>ee\<close> the upper percentile is gathered at the best index and the lower
  percentiles are all kept; for an odd one it is the other way round.
\<close>

definition refine_A_phase ::
  "env \<Rightarrow> candidates \<Rightarrow> MatMul \<times> nat list \<Rightarrow> nat \<Rightarrow> error + (MatMul \<times> nat list)" where
  "refine_A_phase ev c st ee =
     ebind (if ee mod 2 = 0
            then ebind (gather (A_uppers_candidates c) (snd st)) (\<lambda>g.
                   Inr ([g], A_lowers_candidates c))
            else ebind (gather (A_lowers_candidates c) (snd st)) (\<lambda>g.
                   Inr (A_uppers_candidates c, [g])))
       (\<lambda>(uppers, lowers).
          ebind (cand_scale (A_quantizer (fst st)) uppers lowers) (\<lambda>sc.
            ebind (cand_zero_point lowers sc) (\<lambda>zp.
              search_best_A_scale ev (fst st) sc zp)))"

definition refine_B_phase ::
  "env \<Rightarrow> candidates \<Rightarrow> MatMul \<times> nat list \<Rightarrow> nat \<Rightarrow> error + (MatMul \<times> nat list)" where
  "refine_B_phase ev c st ee =
     ebind (if ee mod 2 = 0
            then ebind (gather (B_uppers_candidates c) (snd st)) (\<lambda>g.
                   Inr ([g], B_lowers_candidates c))
            else ebind (gather (B_lowers_candidates c) (snd st)) (\<lambda>g.
                   Inr (B_uppers_candidates c, [g])))
       (\<lambda>(uppers, lowers).
          ebind (cand_scale (B_quantizer (fst st)) uppers lowers) (\<lambda>sc.
            ebind (cand_zero_point lowers sc) (\<lambda>zp.
              search_best_B_scale ev (fst st) sc zp)))"

text \<open>
  The body of the loop over \<^verbatim>\<open>e\<close>, lines 280 to 301. The state is the operator with
  \<^verbatim>\<open>A_best_index\<close> and \<^verbatim>\<open>B_best_index\<close>.
\<close>

definition refine_round ::
  "env \<Rightarrow> candidates \<Rightarrow> MatMul \<times> nat list \<times> nat list \<Rightarrow> nat
     \<Rightarrow> error + (MatMul \<times> nat list \<times> nat list)" where
  "refine_round ev c st e =
     (case st of (m, A_best_index, B_best_index) \<Rightarrow>
        ebind (if n_bits (A_quantizer m) < 32
               then foldM (refine_A_phase ev c) (m, A_best_index) [0..<2]
               else Inr (m, A_best_index))
          (\<lambda>(ma, A_best_index').
             ebind (if n_bits (B_quantizer ma) < 32
                    then foldM (refine_B_phase ev c) (ma, B_best_index) [0..<2]
                    else Inr (ma, B_best_index))
               (\<lambda>(mb, B_best_index'). Inr (mb, A_best_index', B_best_index'))))"

text \<open>Lines 303 and 304: the latch, then the captured tensors are deleted.\<close>

definition finish_search :: "MatMul \<Rightarrow> error + MatMul" where
  "finish_search m =
     (if raw_input m = Absent \<or> raw_out m = Absent \<or> raw_grad m = Absent
      then Inl AttributeError
      else Inr (m\<lparr>calibrated := True, raw_input := Absent, raw_out := Absent,
                  raw_grad := Absent\<rparr>))"

text \<open>Lines 277 to 305, from the seeded operator on.\<close>

definition search_stage :: "env \<Rightarrow> MatMul \<times> candidates \<Rightarrow> error + MatMul" where
  "search_stage ev mc =
     (case mc of (m2, c) \<Rightarrow>
        ebind (search_best_A_scale ev m2 (A_scale_candidates c) (A_zero_point_candidates c))
          (\<lambda>(m3, A_best_index).
        ebind (search_best_B_scale ev m3 (B_scale_candidates c) (B_zero_point_candidates c))
          (\<lambda>(m4, B_best_index).
        ebind (foldM (refine_round ev c) (m4, A_best_index, B_best_index)
                 [0..<search_round m4])
          (\<lambda>(m5, A_best_index', B_best_index'). finish_search m5))))"

definition hyperparameter_searching :: "env \<Rightarrow> MatMul \<Rightarrow> error + MatMul" where
  "hyperparameter_searching ev m = ebind (seed_stage ev m) (search_stage ev)"

section \<open>The refinement round as the specification words it\<close>

text \<open>
  The specification describes a refinement round as a coordinate descent in two phases
  per side: the upper endpoint of the percentile range is held at the current best index
  while the lower endpoint sweeps the candidates, then the lower endpoint is held while
  the upper one sweeps; a side with 32 bits is skipped. These definitions follow that
  wording, to be compared with \<^const>\<open>refine_round\<close>.
\<close>

definition upper_held_lower_swept_A ::
  "env \<Rightarrow> candidates \<Rightarrow> MatMul \<times> nat list \<Rightarrow> error + (MatMul \<times> nat list)" where
  "upper_held_lower_swept_A ev c st =
     ebind (gather (A_uppers_candidates c) (snd st)) (\<lambda>held.
       ebind (cand_scale (A_quantizer (fst st)) [held] (A_lowers_candidates c)) (\<lambda>sc.
         ebind (cand_zero_point (A_lowers_candidates c) sc) (\<lambda>zp.
           search_best_A_scale ev (fst st) sc zp)))"

definition lower_held_upper_swept_A ::
  "env \<Rightarrow> candidates \<Rightarrow> MatMul \<times> nat list \<Rightarrow> error + (MatMul \<times> nat list)" where
  "lower_held_upper_swept_A ev c st =
     ebind (gather (A_lowers_candidates c) (snd st)) (\<lambda>held.
       ebind (cand_scale (A_quantizer (fst st)) (A_uppers_candidates c) [held]) (\<lambda>sc.
         ebind (cand_zero_point [held] sc) (\<lambda>zp.
           search_best_A_scale ev (fst st) sc zp)))"

definition upper_held_lower_swept_B ::
  "env \<Rightarrow> candidates \<Rightarrow> MatMul \<times> nat list \<Rightarrow> error + (MatMul \<times> nat list)" where
  "upper_held_lower_swept_B ev c st =
     ebind (gather (B_uppers_candidates c) (snd st)) (\<lambda>held.
       ebind (cand_scale (B_quantizer (fst st)) [held] (B_lowers_candidates c)) (\<lambda>sc.
         ebind (cand_zero_point (B_lowers_candidates c) sc) (\<lambda>zp.
           search_best_B_scale ev (fst st) sc zp)))"

definition lower_held_upper_swept_B ::
  "env \<Rightarrow> candidates \<Rightarrow> MatMul \<times> nat list \<Rightarrow> error + (MatMul \<times> nat list)" where
  "lower_held_upper_swept_B ev c st =
     ebind (gather (B_lowers_candidates c) (snd st)) (\<lambda>held.
       ebind (cand_scale (B_quantizer (fst st)) (B_uppers_candidates c) [held]) (\<lambda>sc.
         ebind (cand_zero_point [held] sc) (\<lambda>zp.
           search_best_B_scale ev (fst st) sc zp)))"

definition refine_side_A ::
  "env \<Rightarrow> candidates \<Rightarrow> MatMul \<times> nat list \<Rightarrow> error + (MatMul \<times> nat list)" where
  "refine_side_A ev c st =
     (if n_bits (A_quantizer (fst st)) < 32
      then ebind (upper_held_lower_swept_A ev c st) (lower_held_upper_swept_A ev c)
      else Inr st)"

definition refine_side_B ::
  "env \<Rightarrow> candidates \<Rightarrow> MatMul \<times> nat list \<Rightarrow> error + (MatMul \<times> nat list)" where
  "refine_side_B ev c st =
     (if n_bits (B_quantizer (fst st)) < 32
      then ebind (upper_held_lower_swept_B ev c st) (lower_held_upper_swept_B ev c)
      else Inr st)"

section \<open>The calibration orchestrator\<close>

text \<open>
  \<^verbatim>\<open>QuantCalibrator\<close> walks \<^verbatim>\<open>model.named_modules()\<close>. A module is a matmul
  operator, a quantized linear or convolution layer, or any other module, of which only
  the \<^verbatim>\<open>mode\<close> attribute (if it has one) matters here. The classes
  \<^verbatim>\<open>MinMaxQuantLinear\<close> and \<^verbatim>\<open>MinMaxQuantConv2d\<close> are not among the sources: a
  layer carries the attributes the calibrator reads and writes, and its own state as a
  value of the type \<^typ>\<open>'p\<close>.
\<close>

datatype layer_kind = Linear | Conv2d

record 'p layer =
  l_kind :: layer_kind
  l_has_metric :: bool
  l_calibrated :: bool
  l_mode :: string
  l_prev_layer :: bool
  l_raw_input :: "tensor attr"
  l_raw_out :: "tensor attr"
  l_tmp_input :: "tensor list option"
  l_tmp_out :: "tensor list option"
  l_state :: 'p

datatype 'p module = MatMulModule MatMul | LayerModule "'p layer" | PlainModule "string option"

text \<open>
  The collaborators of the calibrator. \<open>model_forward ms b\<close> runs the whole model on a
  batch and tells, for the module at each position, the inputs and the output of each of
  its invocations, which is what a forward hook receives. \<open>layer_search\<close> and
  \<open>reparam\<close> are the \<^verbatim>\<open>hyperparameter_searching\<close> and \<^verbatim>\<open>reparam\<close> methods of
  the layers; \<open>reparam\<close> reaches into a neighbouring module, so it acts on the list.
\<close>

record ('p, 'b) collab =
  model_forward :: "'p module list \<Rightarrow> 'b \<Rightarrow> error + (nat \<Rightarrow> (tensor \<times> tensor \<times> tensor) list)"
  layer_search :: "'p layer \<Rightarrow> error + 'p layer"
  reparam :: "nat \<Rightarrow> 'p module list \<Rightarrow> error + 'p module list"
  device :: env

definition has_metric :: "'p module \<Rightarrow> bool" where
  "has_metric md =
     (case md of MatMulModule m \<Rightarrow> True | LayerModule l \<Rightarrow> l_has_metric l | PlainModule _ \<Rightarrow> False)"

definition is_calibrated :: "'p module \<Rightarrow> bool" where
  "is_calibrated md =
     (case md of MatMulModule m \<Rightarrow> calibrated m | LayerModule l \<Rightarrow> l_calibrated l
      | PlainModule _ \<Rightarrow> False)"

definition mode_of :: "'p module \<Rightarrow> string option" where
  "mode_of md =
     (case md of MatMulModule m \<Rightarrow> Some (mode m) | LayerModule l \<Rightarrow> Some (l_mode l)
      | PlainModule a \<Rightarrow> a)"

definition has_prev_layer :: "'p module \<Rightarrow> bool" where
  "has_prev_layer md =
     (case md of MatMulModule m \<Rightarrow> False | LayerModule l \<Rightarrow> l_prev_layer l
      | PlainModule _ \<Rightarrow> False)"

definition append_opt :: "'a list option \<Rightarrow> 'a \<Rightarrow> 'a list option" where
  "append_opt acc x = (case acc of None \<Rightarrow> Some [x] | Some xs \<Rightarrow> Some (xs @ [x]))"

text \<open>
  The hooks registered on the module under calibration, applied to one invocation:
  \<^verbatim>\<open>outp_forward_hook\<close> first, then the hook for the inputs that fits the class.
\<close>

definition run_hooks :: "'p module \<Rightarrow> tensor \<times> tensor \<times> tensor \<Rightarrow> 'p module" where
  "run_hooks md call =
     (case call of (inp0, inp1, outp) \<Rightarrow>
        (case md of
           MatMulModule m \<Rightarrow>
             MatMulModule (m\<lparr> tmp_out := append_opt (tmp_out m) outp,
                               tmp_input :=
                                 (case tmp_input m of
                                    None \<Rightarrow> Some ([inp0], [inp1])
                                  | Some (a, b) \<Rightarrow> Some (a @ [inp0], b @ [inp1])) \<rparr>)
         | LayerModule l \<Rightarrow>
             LayerModule (l\<lparr> l_tmp_out := append_opt (l_tmp_out l) outp,
                              l_tmp_input := append_opt (l_tmp_input l) inp0 \<rparr>)
         | PlainModule a \<Rightarrow> PlainModule a))"

definition capture_batch ::
  "('p, 'b) collab \<Rightarrow> nat \<Rightarrow> 'p module list \<Rightarrow> 'b \<Rightarrow> error + 'p module list" where
  "capture_batch cb i ms b =
     ebind (model_forward cb ms b) (\<lambda>calls. Inr (ms[i := foldl run_hooks (ms ! i) (calls i)]))"

text \<open>Lines 64 to 71: the captured tensors are concatenated and the buffers cleared.\<close>

definition replace_raw :: "'p module \<Rightarrow> error + 'p module" where
  "replace_raw md =
     (case md of
        MatMulModule m \<Rightarrow>
          (case tmp_out m of
             None \<Rightarrow> Inl TypeError
           | Some outs \<Rightarrow>
               (case tmp_input m of
                  None \<Rightarrow> Inl TypeError
                | Some (a, b) \<Rightarrow>
                    Inr (MatMulModule (m\<lparr> raw_out := Value (concat outs),
                                            raw_input := Value (concat a, concat b),
                                            tmp_input := None, tmp_out := None \<rparr>))))
      | LayerModule l \<Rightarrow>
          (case l_tmp_out l of
             None \<Rightarrow> Inl TypeError
           | Some outs \<Rightarrow>
               (case l_tmp_input l of
                  None \<Rightarrow> Inl TypeError
                | Some a \<Rightarrow>
                    Inr (LayerModule (l\<lparr> l_raw_out := Value (concat outs),
                                           l_raw_input := Value (concat a),
                                           l_tmp_input := None, l_tmp_out := None \<rparr>))))
      | PlainModule a \<Rightarrow> Inl AttributeError)"

definition module_search :: "('p, 'b) collab \<Rightarrow> 'p module \<Rightarrow> error + 'p module" where
  "module_search cb md =
     (case md of
        MatMulModule m \<Rightarrow> ebind (hyperparameter_searching (device cb) m) (\<lambda>m'. Inr (MatMulModule m'))
      | LayerModule l \<Rightarrow> ebind (layer_search cb l) (\<lambda>l'. Inr (LayerModule l'))
      | PlainModule a \<Rightarrow> Inl AttributeError)"

text \<open>The body of the loop over the modules, lines 48 to 79, for the module at \<open>i\<close>.\<close>

definition calibrate_module ::
  "('p, 'b) collab \<Rightarrow> 'b list \<Rightarrow> 'p module list \<Rightarrow> nat \<Rightarrow> error + 'p module list" where
  "calibrate_module cb calib_loader ms i =
     (if \<not> has_metric (ms ! i) \<or> is_calibrated (ms ! i) then Inr ms
      else
        ebind (foldM (capture_batch cb i) ms calib_loader) (\<lambda>ms1.
          ebind (replace_raw (ms1 ! i)) (\<lambda>md2.
            ebind (module_search cb md2) (\<lambda>md3.
              if has_prev_layer md3 then reparam cb i (ms1[i := md3])
              else Inr (ms1[i := md3])))))"

definition calibrate_modules ::
  "('p, 'b) collab \<Rightarrow> 'b list \<Rightarrow> 'p module list \<Rightarrow> nat \<Rightarrow> error + 'p module list" where
  "calibrate_modules cb calib_loader ms k = foldM (calibrate_module cb calib_loader) ms [0..<k]"

text \<open>Lines 81 to 83.\<close>

definition set_quant_forward :: "'p module \<Rightarrow> 'p module" where
  "set_quant_forward md =
     (case md of
        MatMulModule m \<Rightarrow> MatMulModule (m\<lparr>mode := ''quant_forward''\<rparr>)
      | LayerModule l \<Rightarrow> LayerModule (l\<lparr>l_mode := ''quant_forward''\<rparr>)
      | PlainModule a \<Rightarrow> (case a of None \<Rightarrow> PlainModule None
                                    | Some _ \<Rightarrow> PlainModule (Some ''quant_forward'')))"

definition end_calibration :: "'p module list \<Rightarrow> 'p module list" where
  "end_calibration ms = map set_quant_forward ms"

text \<open>
  \<^verbatim>\<open>batching_quant_calib\<close>: the float pass over the calibration set, the loop over
  the modules, then the pass that sets the modes.
\<close>

definition batching_quant_calib ::
  "('p, 'b) collab \<Rightarrow> 'b list \<Rightarrow> 'p module list \<Rightarrow> error + 'p module list" where
  "batching_quant_calib cb calib_loader ms =
     ebind (mapM (model_forward cb ms) calib_loader) (\<lambda>raw_preds.
       ebind (calibrate_modules cb calib_loader ms (length ms)) (\<lambda>ms'.
         Inr (end_calibration ms')))"

text \<open>
  What the orchestrator takes for granted of the methods it calls on the layers: the
  search of a layer and \<^verbatim>\<open>reparam\<close> assign no \<^verbatim>\<open>mode\<close>.
\<close>

definition keeps_modes :: "('p, 'b) collab \<Rightarrow> bool" where
  "keeps_modes cb \<longleftrightarrow>
     (\<forall>l l'. layer_search cb l = Inr l' \<longrightarrow> l_mode l' = l_mode l)
     \<and> (\<forall>i ms ms'. reparam cb i ms = Inr ms' \<longrightarrow> map mode_of ms' = map mode_of ms)"

section \<open>The operations on an operator\<close>

text \<open>
  Every method of the operator and every write of the calibrator to it, as one step on
  its state; a method that only computes a value leaves the state as it is.
\<close>

datatype operation =
    Op_forward tensor tensor
  | Op_quant_input_A tensor
  | Op_quant_input_B tensor
  | Op_quant_forward tensor tensor
  | Op_u_perturbation_forward tensor tensor
  | Op_d_perturbation_forward tensor tensor
  | Op_get_similarity tensor tensor string "tensor option"
  | Op_initialize_calib_parameters
  | Op_search_best_A_scale "real list list" "real list list"
  | Op_search_best_B_scale "real list list" "real list list"
  | Op_calculate_percentile_candidates tensor real real real
  | Op_hyperparameter_searching
  | Op_run_hooks tensor tensor tensor
  | Op_replace_raw
  | Op_set_quant_forward

definition keep :: "MatMul \<Rightarrow> error + 'a \<Rightarrow> error + MatMul" where
  "keep m r = ebind r (\<lambda>v. Inr m)"

definition as_matmul :: "unit module \<Rightarrow> error + MatMul" where
  "as_matmul md = (case md of MatMulModule m \<Rightarrow> Inr m | _ \<Rightarrow> Inl TypeError)"

fun apply_operation :: "env \<Rightarrow> operation \<Rightarrow> MatMul \<Rightarrow> error + MatMul" where
  "apply_operation ev (Op_forward A B) m = keep m (MatMul_forward ev m A B)"
| "apply_operation ev (Op_quant_input_A x) m = keep m (quant_input_A ev m x)"
| "apply_operation ev (Op_quant_input_B x) m = keep m (quant_input_B ev m x)"
| "apply_operation ev (Op_quant_forward A B) m = keep m (quant_forward ev m A B)"
| "apply_operation ev (Op_u_perturbation_forward A B) m = keep m (u_perturbation_forward A B)"
| "apply_operation ev (Op_d_perturbation_forward A B) m = keep m (d_perturbation_forward A B)"
| "apply_operation ev (Op_get_similarity r s mt g) m = keep m (get_similarity r s mt g)"
| "apply_operation ev Op_initialize_calib_parameters m = initialize_calib_parameters ev m"
| "apply_operation ev (Op_search_best_A_scale sc zc) m =
     ebind (search_best_A_scale ev m sc zc) (\<lambda>r. Inr (fst r))"
| "apply_operation ev (Op_search_best_B_scale sc zc) m =
     ebind (search_best_B_scale ev m sc zc) (\<lambda>r. Inr (fst r))"
| "apply_operation ev (Op_calculate_percentile_candidates x l r k) m =
     keep m (calculate_percentile_candidates ev m x l r k)"
| "apply_operation ev Op_hyperparameter_searching m = hyperparameter_searching ev m"
| "apply_operation ev (Op_run_hooks inp0 inp1 outp) m =
     as_matmul (run_hooks (MatMulModule m) (inp0, inp1, outp))"
| "apply_operation ev Op_replace_raw m = ebind (replace_raw (MatMulModule m)) as_matmul"
| "apply_operation ev Op_set_quant_forward m = as_matmul (set_quant_forward (MatMulModule m))"

section \<open>Shapes\<close>

text \<open>The shape of a tensor, the element at an index, and the indices a tensor has.\<close>

definition shape_of :: "tensor \<Rightarrow> nat list list list" where
  "shape_of x = map (map (map length)) x"

definition same_shape :: "tensor \<Rightarrow> tensor \<Rightarrow> bool" where
  "same_shape a b \<longleftrightarrow> shape_of a = shape_of b"

definition t_nth :: "tensor \<Rightarrow> nat \<Rightarrow> nat \<Rightarrow> nat \<Rightarrow> nat \<Rightarrow> real" where
  "t_nth x i j k l = x ! i ! j ! k ! l"

definition in_shape :: "tensor \<Rightarrow> nat \<Rightarrow> nat \<Rightarrow> nat \<Rightarrow> nat \<Rightarrow> bool" where
  "in_shape x i j k l \<longleftrightarrow>
     i < length x \<and> j < length (x ! i) \<and> k < length (x ! i ! j) \<and> l < length (x ! i ! j ! k)"

section \<open>Example inputs\<close>

definition fresh_operator :: MatMul where
  "fresh_operator = AsymmetricallyBatchingQuantMatMul_init 8 8 ''quant_forward'' ''mse'' 32 1 100 True 12 4"

definition plain_env :: env where
  "plain_env = \<lparr> cuda_is_available = True, total_memory = 256, quantile_limit = 100, rand_like = id \<rparr>"

definition budget_operator :: MatMul where
  "budget_operator =
     (AsymmetricallyBatchingQuantMatMul_init 8 8 ''raw'' ''mse'' 1 1 3 True 1 4)
       \<lparr> raw_input := Value ([[[[1]]]], [[[[1]]]]), raw_out := Value [[[[1]]]] \<rparr>"

text \<open>
  A small operator: one sample, one head, a (1, 3) left and a (3, 1) right operand, two
  bits on each side and a grid of \<open>eq_n = 2\<close>; the operator after the seed, the
  candidate grids of the seed, and the operator after the first search of the left side.
\<close>

definition small_operator :: MatMul where
  "small_operator =
     (AsymmetricallyBatchingQuantMatMul_init 2 2 ''raw'' ''mse'' 1 1 2 True 1 4)
       \<lparr> raw_input := Value ([[[[0, 1996, 3000]]]], [[[[0], [6000], [0]]]]),
         raw_out := Value [[[[11976000]]]] \<rparr>"

definition seeded_operator :: MatMul where
  "seeded_operator =
     small_operator
       \<lparr> A_quantizer := (A_quantizer small_operator)
            \<lparr>scale := Some [49999 / 50], zero_point := Some [0], inited := True\<rparr>,
         B_quantizer := (B_quantizer small_operator)
            \<lparr>scale := Some [49999 / 25], zero_point := Some [0], inited := True\<rparr>,
         calib_size := Some 1, parallel_eq_n := Some 1 \<rparr>"

definition small_candidates :: candidates where
  "small_candidates =
     \<lparr> A_uppers_candidates = [[374749 / 125], [37499749 / 12500], [3000]],
       A_lowers_candidates = [[499 / 125], [499 / 12500], [0]],
       B_uppers_candidates = [[5988], [149997 / 25], [6000]],
       B_lowers_candidates = [[0], [0], [0]],
       A_scale_candidates = [[998], [49999 / 50], [1000]],
       A_zero_point_candidates = [[0], [0], [0]],
       B_scale_candidates = [[1996], [49999 / 25], [2000]],
       B_zero_point_candidates = [[0], [0], [0]] \<rparr>"

definition searched_operator :: MatMul where
  "searched_operator =
     seeded_operator
       \<lparr> A_quantizer := (A_quantizer seeded_operator)
            \<lparr>scale := Some [998], zero_point := Some [0]\<rparr> \<rparr>"


text \<open>The same operator with a right, and with a left, side of 32 bits.\<close>

definition wide_operator :: MatMul where
  "wide_operator =
     searched_operator
       \<lparr> B_quantizer := (UniformQuantizer_init 32 False True)
            \<lparr>scale := Some [0], zero_point := Some [0], inited := True\<rparr> \<rparr>"

definition wide_A_operator :: MatMul where
  "wide_A_operator =
     searched_operator
       \<lparr> A_quantizer := (UniformQuantizer_init 32 False True)
            \<lparr>scale := Some [0], zero_point := Some [0], inited := True\<rparr> \<rparr>"

text \<open>
  A model of four modules, one of them a layer that is still to be calibrated, with
  collaborators that capture fixed tensors, and a calibration set of two batches.
\<close>

definition example_collab :: "(unit, nat) collab" where
  "example_collab =
     \<lparr> model_forward = (\<lambda>ms b. Inr (\<lambda>i. [([[[[1]]]], [[[[2]]]], [[[[real b]]]])])),
       layer_search = (\<lambda>l. Inr (l\<lparr>l_calibrated := True\<rparr>)),
       reparam = (\<lambda>i ms. Inr ms),
       device = plain_env \<rparr>"

definition example_layer :: "unit layer" where
  "example_layer =
     \<lparr> l_kind = Linear, l_has_metric = True, l_calibrated = False, l_mode = ''raw'',
       l_prev_layer = True, l_raw_input = PyNone, l_raw_out = PyNone,
       l_tmp_input = None, l_tmp_out = None, l_state = () \<rparr>"

definition example_modules :: "unit module list" where
  "example_modules =
     [PlainModule None, LayerModule example_layer,
      MatMulModule (searched_operator\<lparr>calibrated := True\<rparr>), PlainModule (Some ''raw'')]"

section \<open>Results and errors\<close>

text \<open>
  The normalisation of the gradient takes a square root, which has no code equation;
  the other definitions are evaluated with theirs.
\<close>

declare normalize_grad_def [code del]

text \<open>
  The equations of the two loops rewrite a call into an expression with the same call:
  they are applied by hand.
\<close>

declare quantile_loop.simps [simp del]

declare py_range.simps [simp del]

text \<open>For evaluation: the top level \<open>i = d\<close> is the power of 1.\<close>

lemma pow_level_code [code]:
  "pow_level i d k =
     (if d = 0 then Inl ZeroDivisionError
      else if i = 0 then
        (if k = 0 then Inr 1 else if k < 0 then Inl ZeroDivisionError else Inr 0)
      else if i = d then Inr 1
      else Inr ((real i / real d) powr k))"
  by (simp add: pow_level_def)

lemma ebind_Inl: "ebind (Inl e) f = Inl e"
  by (simp add: ebind_def)

lemma ebind_Inr: "ebind (Inr v) f = f v"
  by (simp add: ebind_def)

lemma ebind_eq_Inr: "ebind r f = Inr v \<longleftrightarrow> (\<exists>x. r = Inr x \<and> f x = Inr v)"
  by (cases r) (simp_all add: ebind_def)

lemma keep_eq_Inr: "keep m r = Inr m' \<Longrightarrow> m' = m"
  by (auto simp: keep_def ebind_eq_Inr)

lemma mapM_Inr_map: "(\<And>x. x \<in> set xs \<Longrightarrow> f x = Inr (g x)) \<Longrightarrow> mapM f xs = Inr (map g xs)"
  by (induction xs) simp_all

section \<open>Properties of the quantizer\<close>

text \<open>
  C5 (as the code has it). The claim quantifies over every bit-width, but
  \<^verbatim>\<open>forward\<close> returns its input for a bit-width of 32 before it reaches the
  assertion: an uninitialised 32-bit quantizer is the identity and does not fail.
\<close>

theorem C5_forward_uninited_32_counterexample:
  "\<not> inited (UniformQuantizer_init 32 False False) \<and>
   forward id (UniformQuantizer_init 32 False False) [[[[1]]]] = Inr [[[[1]]]] \<and>
   forward id (UniformQuantizer_init 32 False False) [[[[1]]]] \<noteq> Inl AssertionError"
  by (simp add: forward_def UniformQuantizer_init_def)

text \<open>
  C5 (amended). For every input tensor and every bit-width other than 32, the forward of
  a quantizer whose \<^verbatim>\<open>inited\<close> flag is false fails with the assertion error; for a
  bit-width of 32 it returns the input unchanged.
\<close>

theorem C5_forward_uninited:
  "\<not> inited q \<Longrightarrow>
     forward rnd q x = (if n_bits q = 32 then Inr x else Inl AssertionError)"
  by (simp add: forward_def)

theorem C5_forward_uninited_witness:
  "\<not> inited (UniformQuantizer_init 8 False True) \<and>
   forward id (UniformQuantizer_init 8 False True) [[[[1, 2]]]] = Inl AssertionError"
  using C5_forward_uninited [of "UniformQuantizer_init 8 False True" id "[[[[1, 2]]]]"]
  by (simp add: UniformQuantizer_init_def)

section \<open>The calibration latch\<close>

lemma initialize_calib_parameters_calibrated:
  "initialize_calib_parameters ev m = Inr m' \<Longrightarrow> calibrated m' = calibrated m"
  by (auto simp: initialize_calib_parameters_def ebind_eq_Inr Let_def
           split: attr.splits prod.splits if_splits)

lemma search_best_A_scale_calibrated:
  "search_best_A_scale ev m sc zc = Inr r \<Longrightarrow> calibrated (fst r) = calibrated m"
  by (auto simp: search_best_A_scale_def ebind_eq_Inr split: prod.splits)

lemma search_best_B_scale_calibrated:
  "search_best_B_scale ev m sc zc = Inr r \<Longrightarrow> calibrated (fst r) = calibrated m"
  by (auto simp: search_best_B_scale_def ebind_eq_Inr split: prod.splits)

lemma finish_search_calibrated: "finish_search m = Inr m' \<Longrightarrow> calibrated m'"
  by (auto simp: finish_search_def split: if_splits)

lemma hyperparameter_searching_calibrated:
  "hyperparameter_searching ev m = Inr m' \<Longrightarrow> calibrated m'"
  by (auto simp: hyperparameter_searching_def search_stage_def ebind_eq_Inr
           split: prod.splits dest: finish_search_calibrated)

lemma apply_operation_latch:
  "calibrated m \<Longrightarrow> apply_operation ev opn m = Inr m' \<Longrightarrow> calibrated m'"
  by (cases opn)
     (auto simp: ebind_eq_Inr as_matmul_def run_hooks_def replace_raw_def set_quant_forward_def
           dest: keep_eq_Inr initialize_calib_parameters_calibrated
                 search_best_A_scale_calibrated search_best_B_scale_calibrated
                 hyperparameter_searching_calibrated
           split: option.splits prod.splits)

text \<open>
  C4. A freshly constructed operator has \<^verbatim>\<open>calibrated\<close> false, and on every operator
  with \<^verbatim>\<open>calibrated\<close> false the quantized forward fails with the assertion error for
  every pair of inputs, called directly or through \<^verbatim>\<open>forward\<close> in the mode
  \<^verbatim>\<open>quant_forward\<close>, so it returns no float result. No operation on an operator
  whose \<^verbatim>\<open>calibrated\<close> is true leaves it false.
\<close>

theorem C4_quant_forward_gate:
  "\<not> calibrated (AsymmetricallyBatchingQuantMatMul_init A_bit B_bit md mt cbs sr en hcw heads shp)
   \<and> quant_forward ev (AsymmetricallyBatchingQuantMatMul_init A_bit B_bit md mt cbs sr en hcw heads shp) A B
       = Inl AssertionError
   \<and> (\<not> calibrated m \<longrightarrow> quant_forward ev m A B = Inl AssertionError)
   \<and> (\<not> calibrated m \<and> mode m = ''quant_forward'' \<longrightarrow> MatMul_forward ev m A B = Inl AssertionError)
   \<and> (calibrated m \<and> apply_operation ev opn m = Inr m' \<longrightarrow> calibrated m')"
proof -
  have fresh: "\<not> calibrated (AsymmetricallyBatchingQuantMatMul_init A_bit B_bit md mt cbs sr en hcw heads shp)"
    by (simp add: AsymmetricallyBatchingQuantMatMul_init_def)
  have gate: "quant_forward ev x A B = Inl AssertionError" if "\<not> calibrated x" for x
    using that by (simp add: quant_forward_def)
  have routed: "MatMul_forward ev m A B = Inl AssertionError"
    if "\<not> calibrated m" "mode m = ''quant_forward''"
    using that by (simp add: MatMul_forward_def gate)
  show ?thesis
    using fresh gate [OF fresh] gate [of m] routed apply_operation_latch [of m ev opn m']
    by blast
qed

theorem C4_quant_forward_gate_witness:
  "\<not> calibrated fresh_operator
   \<and> mode fresh_operator = ''quant_forward''
   \<and> quant_forward plain_env fresh_operator [[[[1]]]] [[[[2]]]] = Inl AssertionError
   \<and> MatMul_forward plain_env fresh_operator [[[[1]]]] [[[[2]]]] = Inl AssertionError
   \<and> calibrated (fresh_operator\<lparr>calibrated := True\<rparr>)
   \<and> apply_operation plain_env (Op_run_hooks [[[[1]]]] [[[[2]]]] [[[[2]]]])
         (fresh_operator\<lparr>calibrated := True\<rparr>)
        = Inr (fresh_operator\<lparr>calibrated := True, tmp_out := Some [[[[[2]]]]],
                 tmp_input := Some ([[[[[1]]]]], [[[[[2]]]]])\<rparr>)
   \<and> calibrated (fresh_operator\<lparr>calibrated := True, tmp_out := Some [[[[[2]]]]],
                 tmp_input := Some ([[[[[1]]]]], [[[[[2]]]]])\<rparr>)"
proof -
  have fresh: "\<not> calibrated fresh_operator" "mode fresh_operator = ''quant_forward''"
    by (simp_all add: fresh_operator_def AsymmetricallyBatchingQuantMatMul_init_def)
  have step: "apply_operation plain_env (Op_run_hooks [[[[1]]]] [[[[2]]]] [[[[2]]]])
         (fresh_operator\<lparr>calibrated := True\<rparr>)
        = Inr (fresh_operator\<lparr>calibrated := True, tmp_out := Some [[[[[2]]]]],
                 tmp_input := Some ([[[[[1]]]]], [[[[[2]]]]])\<rparr>)"
    by (simp add: run_hooks_def as_matmul_def append_opt_def fresh_operator_def
          AsymmetricallyBatchingQuantMatMul_init_def)
  show ?thesis
    using fresh step
      C4_quant_forward_gate [of 8 8 "''quant_forward''" "''mse''" 32 1 100 True 12 4
        plain_env "[[[[1]]]]" "[[[[2]]]]" fresh_operator]
      C4_quant_forward_gate [of 8 8 "''quant_forward''" "''mse''" 32 1 100 True 12 4
        plain_env "[[[[1]]]]" "[[[[2]]]]" "fresh_operator\<lparr>calibrated := True\<rparr>"
        "Op_run_hooks [[[[1]]]] [[[[2]]]] [[[[2]]]]"
        "fresh_operator\<lparr>calibrated := True, tmp_out := Some [[[[[2]]]]],
                 tmp_input := Some ([[[[[1]]]]], [[[[[2]]]]])\<rparr>"]
    by simp
qed

section \<open>The similarity scorer: the metric jacobian\<close>

lemma map_eq_iff_list_all2: "map f xs = map g ys \<longleftrightarrow> list_all2 (\<lambda>x y. f x = g y) xs ys"
  by (simp add: list.rel_map flip: list.rel_eq)

lemma same_shape_rel:
  "same_shape a b \<longleftrightarrow> list_all2 (list_all2 (list_all2 (\<lambda>x y. length x = length y))) a b"
  by (simp add: same_shape_def shape_of_def map_eq_iff_list_all2)

lemma mapM_id_map2:
  "list_all2 (\<lambda>x y. g x y = Inr (h x y)) xs ys \<Longrightarrow>
     mapM (\<lambda>r. r) (map2 g xs ys) = Inr (map2 h xs ys)"
  by (induction rule: list_all2_induct) simp_all

lemma bcast2_same: "length xs = length ys \<Longrightarrow> bcast2 f xs ys = Inr (map2 f xs ys)"
  by (simp add: bcast2_def)

lemma bcast2M_same:
  assumes "list_all2 (\<lambda>x y. g x y = Inr (h x y)) xs ys"
  shows "bcast2M g xs ys = Inr (map2 h xs ys)"
proof -
  from assms have "length xs = length ys"
    by (rule list_all2_lengthD)
  then show ?thesis
    using assms by (simp add: bcast2M_def bcast2_same ebind_Inr mapM_id_map2)
qed

lemma t_map2_same:
  assumes "same_shape a b"
  shows "t_map2 f a b = Inr (map2 (map2 (map2 (map2 f))) a b)"
proof -
  have l1: "list_all2 (\<lambda>x y. bcast2 f x y = Inr (map2 f x y)) m n"
    if "list_all2 (\<lambda>x y. length x = length y) m n" for m n
    using that by (rule list_all2_mono) (simp add: bcast2_same)
  have l2: "list_all2 (\<lambda>x y. bcast2M (bcast2 f) x y = Inr (map2 (map2 f) x y)) s t"
    if "list_all2 (list_all2 (\<lambda>x y. length x = length y)) s t" for s t
    using that by (rule list_all2_mono) (simp add: bcast2M_same l1)
  have l3: "list_all2 (\<lambda>x y. bcast2M (bcast2M (bcast2 f)) x y = Inr (map2 (map2 (map2 f)) x y)) a b"
    using assms unfolding same_shape_rel
    by (rule list_all2_mono) (simp add: bcast2M_same l2)
  show ?thesis
    unfolding t_map2_def by (rule bcast2M_same) (rule l3)
qed

lemma shape_of_t_map: "shape_of (t_map f x) = shape_of x"
  by (simp add: shape_of_def t_map_def mat_map_def comp_def)

lemma rows_map2:
  "list_all2 (\<lambda>x y. length x = length y) m n \<Longrightarrow> map length (map2 (map2 f) m n) = map length n"
  by (induction rule: list_all2_induct) simp_all

lemma mats_map2:
  "list_all2 (list_all2 (\<lambda>x y. length x = length y)) s t \<Longrightarrow>
     map (map length) (map2 (map2 (map2 f)) s t) = map (map length) t"
  by (induction rule: list_all2_induct) (simp_all del: map_map add: rows_map2)

lemma shape_of_map2:
  "same_shape a b \<Longrightarrow> shape_of (map2 (map2 (map2 (map2 f))) a b) = shape_of b"
  unfolding same_shape_rel shape_of_def
  by (induction rule: list_all2_induct) (simp_all del: map_map add: mats_map2)

lemma shape_numel: "shape_of a = shape_of b \<Longrightarrow> numel a = numel b"
proof -
  have "numel x = sum_list (concat (concat (shape_of x)))" for x
    by (simp add: numel_def flatten_def shape_of_def length_concat map_concat comp_def)
  then show "shape_of a = shape_of b \<Longrightarrow> numel a = numel b"
    by simp
qed

lemma same_rows_concat:
  "list_all2 (\<lambda>x y. length x = length y) m n \<Longrightarrow> length (concat m) = length (concat n)"
  by (induction rule: list_all2_induct) simp_all

lemma same_mats_concat:
  "list_all2 (list_all2 (\<lambda>x y. length x = length y)) s t \<Longrightarrow>
     length (concat (concat s)) = length (concat (concat t))"
  by (induction rule: list_all2_induct) (simp_all add: same_rows_concat)

lemma refill_rows_same:
  "list_all2 (\<lambda>x y. length x = length y) m n \<Longrightarrow> refill_rows (concat m @ rest) n = m"
  by (induction arbitrary: rest rule: list_all2_induct) simp_all

lemma refill_mats_same:
  "list_all2 (list_all2 (\<lambda>x y. length x = length y)) s t \<Longrightarrow>
     refill_mats (concat (concat s) @ rest) t = s"
proof (induction arbitrary: rest rule: list_all2_induct)
  case Nil
  then show ?case by simp
next
  case (Cons m ms n ns)
  from Cons.hyps(1) have len: "length (concat n) = length (concat m)"
    by (simp add: same_rows_concat)
  show ?case
    using Cons.IH [of rest] refill_rows_same [OF Cons.hyps(1), of "concat (concat ms) @ rest"]
    by (simp add: len)
qed

lemma refill_samples_same:
  "list_all2 (list_all2 (list_all2 (\<lambda>x y. length x = length y))) a b \<Longrightarrow>
     refill_samples (concat (concat (concat a)) @ rest) b = a"
proof (induction arbitrary: rest rule: list_all2_induct)
  case Nil
  then show ?case by simp
next
  case (Cons s ss t ts)
  from Cons.hyps(1) have len: "length (concat (concat t)) = length (concat (concat s))"
    by (simp add: same_mats_concat)
  show ?case
    using Cons.IH [of rest]
      refill_mats_same [OF Cons.hyps(1), of "concat (concat (concat ss)) @ rest"]
    by (simp add: len)
qed

lemma reshape_as_same: "same_shape g t \<Longrightarrow> reshape_as g t = Inr g"
  using refill_samples_same [of g t "[]"] shape_numel [of g t]
  by (simp add: reshape_as_def flatten_def same_shape_rel) (simp add: same_shape_def flip: same_shape_rel)

lemma in_shape_cong: "same_shape a b \<Longrightarrow> in_shape a i j k l = in_shape b i j k l"
proof -
  have "in_shape x i j k l \<longleftrightarrow>
      i < length (shape_of x) \<and> j < length (shape_of x ! i) \<and> k < length (shape_of x ! i ! j)
      \<and> l < shape_of x ! i ! j ! k" for x
    by (auto simp: in_shape_def shape_of_def)
  then show "same_shape a b \<Longrightarrow> in_shape a i j k l = in_shape b i j k l"
    by (simp add: same_shape_def)
qed

lemma t_nth_t_map: "in_shape x i j k l \<Longrightarrow> t_nth (t_map f x) i j k l = f (t_nth x i j k l)"
  by (simp add: in_shape_def t_nth_def t_map_def mat_map_def)

lemma t_nth_map2:
  assumes "same_shape a b" "in_shape b i j k l"
  shows "t_nth (map2 (map2 (map2 (map2 f))) a b) i j k l = f (t_nth a i j k l) (t_nth b i j k l)"
proof -
  from assms have "in_shape a i j k l"
    by (simp add: in_shape_cong)
  with assms(2) show ?thesis
    by (simp add: in_shape_def t_nth_def)
qed

text \<open>
  C1 (as the code has it). The gradient branch normalises \<^verbatim>\<open>raw_grad\<close> before it
  looks at the metric, so \<^verbatim>\<open>jacobian\<close> scores with the normalised gradient: for
  \<open>G = 2\<close>, \<open>R = 1\<close> and \<open>S = 0\<close> the score is \<open>-1\<close>, not
  \<open>-(|G| * |R - S|) = -2\<close>.
\<close>

theorem C1_jacobian_unnormalized_counterexample:
  "get_similarity [[[[1]]]] [[[[0]]]] ''jacobian'' (Some [[[[2]]]]) = Inr [[[[- 1]]]]
   \<and> get_similarity [[[[1]]]] [[[[0]]]] ''jacobian'' (Some [[[[2]]]])
       \<noteq> Inr [[[[- (\<bar>2\<bar> * \<bar>1 - 0\<bar>)]]]]"
  by (simp add: get_similarity_def reshape_as_def numel_def flatten_def normalize_grad_def
       t_map_def mat_map_def t_map2_def bcast2M_def bcast2_def ebind_def real_sqrt_divide)

text \<open>
  C1 (amended). For a reference tensor \<open>R\<close>, a simulated tensor \<open>S\<close> and a gradient
  \<open>G\<close> of one shape, the gradient not all zero, the scorer with the metric
  \<^verbatim>\<open>jacobian\<close> returns the elementwise score
  \<open>-(|G| * sqrt (numel G / sum (G^2)) * |R - S|)\<close>: the gradient enters with the same
  normalisation to unit mean square as for \<^verbatim>\<open>hessian\<close>.
\<close>

theorem C1_jacobian_score:
  assumes RS: "same_shape R S" and GR: "same_shape G R"
    and nz: "sum_list (map (\<lambda>e. e ^ 2) (flatten G)) \<noteq> 0"
  shows "\<exists>T. get_similarity R S ''jacobian'' (Some G) = Inr T \<and> same_shape T R \<and>
    (\<forall>i j k l. in_shape R i j k l \<longrightarrow>
       t_nth T i j k l =
         - (\<bar>t_nth G i j k l\<bar> * sqrt (real (numel G) / sum_list (map (\<lambda>e. e ^ 2) (flatten G)))
            * \<bar>t_nth R i j k l - t_nth S i j k l\<bar>))"
proof -
  define c where "c = sqrt (real (numel G) / sum_list (map (\<lambda>e. e ^ 2) (flatten G)))"
  define D where "D = map2 (map2 (map2 (map2 (-)))) R S"
  define Ga where "Ga = t_map abs (normalize_grad G)"
  define P where "P = map2 (map2 (map2 (map2 (*)))) Ga (t_map abs D)"
  define T where "T = t_map uminus P"
  have "0 \<le> sum_list (map (\<lambda>e. e ^ 2) (flatten G))"
    by (rule sum_list_nonneg) auto
  then have c0: "0 \<le> c"
    by (simp add: c_def)
  have shD: "shape_of D = shape_of S"
    unfolding D_def by (rule shape_of_map2) (rule RS)
  have shS: "shape_of S = shape_of R" and shG: "shape_of G = shape_of R"
    using RS GR by (simp_all add: same_shape_def)
  have shGa: "shape_of Ga = shape_of R"
    by (simp add: Ga_def normalize_grad_def shape_of_t_map shG)
  have same_P: "same_shape Ga (t_map abs D)"
    by (simp add: same_shape_def shape_of_t_map shGa shD shS)
  have shP: "shape_of P = shape_of R"
    unfolding P_def using shape_of_map2 [OF same_P] by (simp add: shape_of_t_map shD shS)
  have shT: "same_shape T R"
    by (simp add: same_shape_def T_def shape_of_t_map shP)
  have eval: "get_similarity R S ''jacobian'' (Some G) = Inr T"
    using same_P
    by (simp add: get_similarity_def reshape_as_same [OF GR] ebind_Inr t_map2_same [OF RS]
          t_map2_same Ga_def D_def P_def T_def)
  have point: "t_nth T i j k l = - (\<bar>t_nth G i j k l\<bar> * c * \<bar>t_nth R i j k l - t_nth S i j k l\<bar>)"
    if inR: "in_shape R i j k l" for i j k l
  proof -
    have inS: "in_shape S i j k l" and inG: "in_shape G i j k l"
      using inR in_shape_cong [OF RS] in_shape_cong [OF GR] by simp_all
    have inD: "in_shape D i j k l" and inP: "in_shape P i j k l"
      using inR in_shape_cong [of D R] in_shape_cong [of P R]
      by (simp_all add: same_shape_def shD shS shP)
    have inaD: "in_shape (t_map abs D) i j k l"
      using inD in_shape_cong [of "t_map abs D" D] by (simp add: same_shape_def shape_of_t_map)
    have inN: "in_shape (normalize_grad G) i j k l"
      using inG in_shape_cong [of "normalize_grad G" G]
      by (simp add: same_shape_def normalize_grad_def shape_of_t_map)
    have d: "t_nth D i j k l = t_nth R i j k l - t_nth S i j k l"
      unfolding D_def by (rule t_nth_map2 [OF RS inS])
    have g: "t_nth Ga i j k l = \<bar>t_nth G i j k l\<bar> * c"
      unfolding Ga_def using c0
      by (simp add: t_nth_t_map [OF inN])
         (simp add: normalize_grad_def t_nth_t_map [OF inG] c_def abs_mult)
    have "t_nth T i j k l = - t_nth P i j k l"
      by (simp add: T_def t_nth_t_map [OF inP])
    also have "t_nth P i j k l = t_nth Ga i j k l * t_nth (t_map abs D) i j k l"
      unfolding P_def by (rule t_nth_map2 [OF same_P inaD])
    also have "t_nth (t_map abs D) i j k l = \<bar>t_nth D i j k l\<bar>"
      by (rule t_nth_t_map [OF inD])
    finally show ?thesis
      by (simp add: d g)
  qed
  show ?thesis
    using eval shT point unfolding c_def by blast
qed

theorem C1_jacobian_score_witness:
  "same_shape [[[[1]]]] [[[[0]]]] \<and> same_shape [[[[2]]]] [[[[1]]]]
   \<and> sum_list (map (\<lambda>e. e ^ 2) (flatten [[[[2]]]])) \<noteq> 0
   \<and> (\<exists>T. get_similarity [[[[1]]]] [[[[0]]]] ''jacobian'' (Some [[[[2]]]]) = Inr T
          \<and> same_shape T [[[[1]]]]
          \<and> t_nth T 0 0 0 0 = - 1)"
proof -
  have h: "same_shape [[[[1]]]] [[[[0]]]]" "same_shape [[[[2]]]] [[[[1]]]]"
    "sum_list (map (\<lambda>e. e ^ 2) (flatten [[[[2]]]])) \<noteq> 0"
    by (simp_all add: same_shape_def shape_of_def flatten_def)
  have inb: "in_shape [[[[1]]]] 0 0 0 0"
    by (simp add: in_shape_def)
  from C1_jacobian_score [OF h] obtain T where
    T: "get_similarity [[[[1]]]] [[[[0]]]] ''jacobian'' (Some [[[[2]]]]) = Inr T"
      "same_shape T [[[[1]]]]"
      "\<forall>i j k l. in_shape [[[[1]]]] i j k l \<longrightarrow>
         t_nth T i j k l =
           - (\<bar>t_nth [[[[2]]]] i j k l\<bar>
              * sqrt (real (numel [[[[2]]]]) / sum_list (map (\<lambda>e. e ^ 2) (flatten [[[[2]]]])))
              * \<bar>t_nth [[[[1]]]] i j k l - t_nth [[[[0]]]] i j k l\<bar>)"
    by blast
  from T(3) inb have "t_nth T 0 0 0 0 =
      - (\<bar>t_nth [[[[2]]]] 0 0 0 0\<bar>
         * sqrt (real (numel [[[[2]]]]) / sum_list (map (\<lambda>e. e ^ 2) (flatten [[[[2]]]])))
         * \<bar>t_nth [[[[1]]]] 0 0 0 0 - t_nth [[[[0]]]] 0 0 0 0\<bar>)"
    by blast
  then have "t_nth T 0 0 0 0 = - 1"
    by (simp add: t_nth_def numel_def flatten_def real_sqrt_divide)
  with h T(1,2) show ?thesis
    by blast
qed

section \<open>The memory budget: the chosen parallelism\<close>

text \<open>
  C2 (as the code has it). With a grid of \<open>eq_n = 3\<close> candidates and a memory bound of
  \<open>p = 2\<close> (16 bytes per candidate in 128 bytes of memory) the operator chooses a
  parallelism of 2, which does not divide 3: the per-side search then evaluates a
  group of two candidates and a partial group of one.
\<close>

theorem C2_parallel_eq_n_divides_counterexample:
  "1 \<le> eq_n budget_operator
   \<and> memory_parallel_eq_n (total_memory plain_env div 2) 16 = Inr 2
   \<and> balanced_parallel_eq_n (eq_n budget_operator) 2 = Inr 2
   \<and> initialize_calib_parameters plain_env budget_operator
       = Inr (budget_operator\<lparr>calib_size := Some 1, parallel_eq_n := Some 2\<rparr>)
   \<and> \<not> (2::nat) dvd eq_n budget_operator
   \<and> map (\<lambda>p_st. length (slice p_st (min 3 (p_st + 2)) [10, 20, 30, 40 :: nat]))
         (py_range 0 3 2) = [2, 1]"
  by code_simp

lemma balanced_parallel_eq_n_bounds:
  assumes n: "1 \<le> n" and p: "1 \<le> p"
  shows "\<exists>q. balanced_parallel_eq_n n p = Inr q \<and> 1 \<le> q \<and> q \<le> p
           \<and> \<lceil>real n / real q\<rceil> = \<lceil>real n / real p\<rceil>"
proof -
  define g where "g = \<lceil>real n / real p\<rceil>"
  define q where "q = nat \<lceil>real n / real_of_int g\<rceil>"
  have np: "0 < real n / real p"
    using n p by simp
  then have g1: "1 \<le> g"
    unfolding g_def by (simp add: le_ceiling_iff)
  then have gpos: "0 < real_of_int g"
    by simp
  have ng: "0 < real n / real_of_int g"
    using n gpos by simp
  then have c1: "1 \<le> \<lceil>real n / real_of_int g\<rceil>"
    by (simp add: le_ceiling_iff)
  then have q1: "1 \<le> q"
    unfolding q_def by linarith
  have qreal: "real q = real_of_int \<lceil>real n / real_of_int g\<rceil>"
    unfolding q_def using c1 by simp
  have "real n / real p \<le> real_of_int g"
    unfolding g_def by simp
  then have "real n \<le> real p * real_of_int g"
    using p by (simp add: field_simps)
  then have "real n / real_of_int g \<le> real p"
    using gpos by (simp add: field_simps)
  then have "\<lceil>real n / real_of_int g\<rceil> \<le> int p"
    by (simp only: ceiling_le_iff of_int_of_nat_eq)
  then have qp: "q \<le> p"
    unfolding q_def by linarith
  have "real n / real_of_int g \<le> real q"
    unfolding qreal by simp
  then have "real n \<le> real_of_int g * real q"
    using gpos by (simp add: field_simps)
  then have "real n / real q \<le> real_of_int g"
    using q1 by (simp add: field_simps)
  then have up: "\<lceil>real n / real q\<rceil> \<le> g"
    by (simp only: ceiling_le_iff)
  have "real n / real p \<le> real n / real q"
    using q1 qp n by (simp add: frac_le)
  then have low: "g \<le> \<lceil>real n / real q\<rceil>"
    unfolding g_def by (rule ceiling_mono)
  have "balanced_parallel_eq_n n p = Inr q"
    using p g1 by (simp add: balanced_parallel_eq_n_def Let_def g_def [symmetric] q_def)
  with q1 qp up low show ?thesis
    unfolding g_def by auto
qed

lemma memory_parallel_eq_n_pos: "memory_parallel_eq_n memory n = Inr p \<Longrightarrow> 1 \<le> p"
  by (auto simp: memory_parallel_eq_n_def split: if_splits)

lemma initialize_calib_parameters_parallel:
  assumes "initialize_calib_parameters ev m = Inr m'"
  shows "\<exists>p q. 1 \<le> p \<and> balanced_parallel_eq_n (eq_n m) p = Inr q \<and> parallel_eq_n m' = Some q"
proof -
  from assms obtain memory n p q cs where
    "memory_parallel_eq_n memory n = Inr p"
    "balanced_parallel_eq_n (eq_n m) p = Inr q"
    "m' = m\<lparr>calib_size := Some cs, parallel_eq_n := Some q\<rparr>"
    by (auto simp: initialize_calib_parameters_def ebind_eq_Inr Let_def
             split: attr.splits prod.splits if_splits)
  then show ?thesis
    using memory_parallel_eq_n_pos by auto
qed

text \<open>
  C2 (amended). For every \<open>eq_n \<ge> 1\<close> and every memory-derived bound \<open>p \<ge> 1\<close> the
  chosen parallelism is \<open>ceil (eq_n / ceil (eq_n / p))\<close>: it is at least 1 and at most
  \<open>p\<close>, and it needs the same number \<open>ceil (eq_n / p)\<close> of candidate groups as \<open>p\<close>
  does. It need not divide \<open>eq_n\<close>. This is the parallelism that
  \<^verbatim>\<open>_initialize_calib_parameters\<close> stores, for a bound \<open>p \<ge> 1\<close>.
\<close>

theorem C2_parallel_eq_n_balanced:
  "(1 \<le> n \<and> 1 \<le> p \<longrightarrow>
      (\<exists>q. balanced_parallel_eq_n n p = Inr q \<and> 1 \<le> q \<and> q \<le> p
           \<and> \<lceil>real n / real q\<rceil> = \<lceil>real n / real p\<rceil>))
   \<and> (1 \<le> eq_n m \<and> initialize_calib_parameters ev m = Inr m' \<longrightarrow>
      (\<exists>p' q. 1 \<le> p' \<and> balanced_parallel_eq_n (eq_n m) p' = Inr q
           \<and> parallel_eq_n m' = Some q \<and> 1 \<le> q \<and> q \<le> p'
           \<and> \<lceil>real (eq_n m) / real q\<rceil> = \<lceil>real (eq_n m) / real p'\<rceil>))"
proof -
  have stored: "\<exists>p' q. 1 \<le> p' \<and> balanced_parallel_eq_n (eq_n m) p' = Inr q
           \<and> parallel_eq_n m' = Some q \<and> 1 \<le> q \<and> q \<le> p'
           \<and> \<lceil>real (eq_n m) / real q\<rceil> = \<lceil>real (eq_n m) / real p'\<rceil>"
    if n: "1 \<le> eq_n m" and i: "initialize_calib_parameters ev m = Inr m'"
  proof -
    from initialize_calib_parameters_parallel [OF i] obtain p' q where
      pq: "1 \<le> p'" "balanced_parallel_eq_n (eq_n m) p' = Inr q" "parallel_eq_n m' = Some q"
      by blast
    from balanced_parallel_eq_n_bounds [OF n pq(1)] pq(2) have
      "1 \<le> q \<and> q \<le> p' \<and> \<lceil>real (eq_n m) / real q\<rceil> = \<lceil>real (eq_n m) / real p'\<rceil>"
      by auto
    with pq show ?thesis
      by blast
  qed
  show ?thesis
    using balanced_parallel_eq_n_bounds [of n p] stored by blast
qed

theorem C2_parallel_eq_n_balanced_witness:
  "(1::nat) \<le> 100 \<and> (1::nat) \<le> 40
   \<and> 1 \<le> eq_n budget_operator
   \<and> initialize_calib_parameters plain_env budget_operator
       = Inr (budget_operator\<lparr>calib_size := Some 1, parallel_eq_n := Some 2\<rparr>)
   \<and> (\<exists>q. balanced_parallel_eq_n 100 40 = Inr q \<and> 1 \<le> q \<and> q \<le> 40
          \<and> \<lceil>real 100 / real q\<rceil> = \<lceil>real 100 / real 40\<rceil>)
   \<and> (\<exists>p' q. 1 \<le> p' \<and> balanced_parallel_eq_n (eq_n budget_operator) p' = Inr q
          \<and> parallel_eq_n (budget_operator\<lparr>calib_size := Some 1, parallel_eq_n := Some 2\<rparr>)
               = Some q
          \<and> q \<le> p')"
proof -
  have n: "1 \<le> eq_n budget_operator"
    by (simp add: budget_operator_def AsymmetricallyBatchingQuantMatMul_init_def)
  have i: "initialize_calib_parameters plain_env budget_operator
       = Inr (budget_operator\<lparr>calib_size := Some 1, parallel_eq_n := Some 2\<rparr>)"
    by code_simp
  note T = C2_parallel_eq_n_balanced
    [of 100 40 budget_operator plain_env
        "budget_operator\<lparr>calib_size := Some 1, parallel_eq_n := Some 2\<rparr>"]
  from T have c1: "\<exists>q. balanced_parallel_eq_n 100 40 = Inr q \<and> 1 \<le> q \<and> q \<le> 40
          \<and> \<lceil>real 100 / real q\<rceil> = \<lceil>real 100 / real 40\<rceil>"
    by simp
  from T n i have c2: "\<exists>p' q. 1 \<le> p' \<and> balanced_parallel_eq_n (eq_n budget_operator) p' = Inr q
          \<and> parallel_eq_n (budget_operator\<lparr>calib_size := Some 1, parallel_eq_n := Some 2\<rparr>)
               = Some q
          \<and> q \<le> p'"
    by blast
  from n i c1 c2 show ?thesis
    by simp
qed

section \<open>The candidate generator: percentile levels\<close>

lemma percentile_levels_eq:
  assumes n: "2 \<le> n" and k: "0 < k"
  shows "percentile_levels n l r k
         = Inr (map (\<lambda>i. l + (r - l) * (real i / real (n - 1)) powr k) [0..<n] @ [1])"
proof -
  have "pow_level i (n - 1) k = Inr ((real i / real (n - 1)) powr k)" for i
    using n k by (simp add: pow_level_def)
  then have "mapM (\<lambda>i. ebind (pow_level i (n - 1) k) (\<lambda>v. Inr (l + (r - l) * v))) [0..<n]
      = Inr (map (\<lambda>i. l + (r - l) * (real i / real (n - 1)) powr k) [0..<n])"
    by (intro mapM_Inr_map) (simp add: ebind_Inr)
  then show ?thesis
    by (simp add: percentile_levels_def ebind_Inr)
qed

text \<open>
  C9. For \<open>eq_n \<ge> 2\<close>, \<open>l < r \<le> 1\<close> and \<open>0 < k\<close> the generator computes
  \<open>eq_n + 1\<close> percentile levels: \<open>l + (r - l) * (i / (eq_n - 1)) ^ k\<close> for
  \<open>i < eq_n\<close>, then exactly 1. The levels are non-decreasing and the last is 1, the
  full range.
\<close>

theorem C9_percentile_levels:
  assumes n: "2 \<le> n" and lr: "l < r" and r1: "r \<le> 1" and k: "0 < k"
  shows "\<exists>ps. percentile_levels n l r k = Inr ps
     \<and> length ps = n + 1
     \<and> (\<forall>i<n. ps ! i = l + (r - l) * (real i / real (n - 1)) powr k)
     \<and> ps ! n = 1
     \<and> last ps = 1
     \<and> sorted ps"
proof -
  define f where "f = (\<lambda>i. l + (r - l) * (real i / real (n - 1)) powr k)"
  define ps where "ps = map f [0..<n] @ [1]"
  have eq: "percentile_levels n l r k = Inr ps"
    using percentile_levels_eq [OF n k] by (simp add: ps_def f_def)
  have len: "length ps = n + 1"
    by (simp add: ps_def)
  have nth: "ps ! i = f i" if "i < n" for i
    using that by (simp add: ps_def nth_append)
  have top: "ps ! n = 1" and lst: "last ps = 1"
    by (simp_all add: ps_def nth_append)
  have mono: "f i \<le> f j" if "i \<le> j" for i j
  proof -
    have "real i / real (n - 1) \<le> real j / real (n - 1)"
      using that n by (simp add: divide_right_mono)
    then have "(real i / real (n - 1)) powr k \<le> (real j / real (n - 1)) powr k"
      using k by (intro powr_mono2) simp_all
    then show ?thesis
      using lr by (simp add: f_def mult_left_mono)
  qed
  have bound: "f i \<le> 1" if "i < n" for i
  proof -
    have "real i / real (n - 1) \<le> 1"
      using that n by simp
    then have "(real i / real (n - 1)) powr k \<le> 1"
      using k by (intro powr_le1) simp_all
    then have "(r - l) * (real i / real (n - 1)) powr k \<le> (r - l) * 1"
      using lr by (intro mult_left_mono) simp_all
    then show ?thesis
      using r1 by (simp add: f_def)
  qed
  have "sorted (map f [0..<n])"
    by (simp add: sorted_iff_nth_mono mono)
  moreover have "\<forall>x \<in> set (map f [0..<n]). x \<le> 1"
    using bound by auto
  ultimately have srt: "sorted ps"
    by (simp add: ps_def sorted_append)
  show ?thesis
    using eq len nth top lst srt unfolding f_def by blast
qed

theorem C9_percentile_levels_witness:
  "(2::nat) \<le> 2 \<and> (999 / 1000 :: real) < 99999 / 100000 \<and> (99999 / 100000 :: real) \<le> 1
   \<and> (0::real) < 1 / 10
   \<and> percentile_levels 2 (999 / 1000) (99999 / 100000) (1 / 10)
       = Inr [999 / 1000, 99999 / 100000, 1]
   \<and> sorted [999 / 1000, 99999 / 100000, 1 :: real]"
proof -
  have ev: "percentile_levels 2 (999 / 1000) (99999 / 100000) (1 / 10)
       = Inr [999 / 1000, 99999 / 100000, 1]"
    by (simp add: percentile_levels_def pow_level_def ebind_def upt_conv_Cons)
  from C9_percentile_levels [of 2 "999 / 1000" "99999 / 100000" "1 / 10"]
  have "\<exists>ps. percentile_levels 2 (999 / 1000) (99999 / 100000) (1 / 10) = Inr ps \<and> sorted ps"
    by auto
  with ev show ?thesis
    by auto
qed

section \<open>The per-side search: which candidates are scored and chosen\<close>

lemma mapM_Inr_all2: "mapM f xs = Inr ys \<Longrightarrow> list_all2 (\<lambda>x y. f x = Inr y) xs ys"
  by (induction xs arbitrary: ys) (auto split: sum.splits)

lemma mapM_Inr_length: "mapM f xs = Inr ys \<Longrightarrow> length ys = length xs"
  by (drule mapM_Inr_all2) (simp add: list_all2_lengthD)

lemma argmax_less: "xs \<noteq> [] \<Longrightarrow> argmax xs < length xs"
  by (induction xs rule: argmax.induct) (auto simp: Let_def)

lemma argmax_bound: "argmax xs < max 1 (length xs)"
  by (cases "xs = []") (simp_all add: argmax_less less_max_iff_disj)

lemma slice_take: "p_ed \<le> n \<Longrightarrow> slice p_st p_ed (take n xs) = slice p_st p_ed xs"
  by (simp add: slice_def min_def)

lemma length_slice_le: "length (slice st ed xs) \<le> ed - st"
  by (simp add: slice_def)

lemma group_lengths:
  "list_all2 (\<lambda>p_st g. length g \<le> min n (p_st + par) - p_st) (py_range i n par) groups
     \<Longrightarrow> length (concat groups) \<le> n - i"
proof (induction i n par arbitrary: groups rule: py_range.induct)
  case (1 i n step)
  show ?case
  proof (cases "step = 0 \<or> n \<le> i")
    case True
    with "1.prems" show ?thesis
      by (simp add: py_range.simps [of i n step])
  next
    case False
    with "1.prems" obtain g gs where gs: "groups = g # gs"
      and g: "length g \<le> min n (i + step) - i"
      and rest: "list_all2 (\<lambda>p_st g. length g \<le> min n (p_st + step) - p_st)
                   (py_range (i + step) n step) gs"
      by (auto simp: list_all2_Cons1 py_range.simps [of i n step])
    from "1.IH" [OF False rest] have c: "length (concat gs) \<le> n - (i + step)" .
    have "length (concat groups) = length g + length (concat gs)"
      by (simp add: gs)
    with g c show ?thesis
      by linarith
  qed
qed

lemma eval_groups_length:
  assumes "eval_groups score n par sc zc = Inr sims"
  shows "length sims \<le> n"
proof -
  from assms obtain groups where par: "par \<noteq> 0"
    and gr: "mapM (\<lambda>p_st. let p_ed = min n (p_st + par)
                 in mapM score (zip (slice p_st p_ed sc) (slice p_st p_ed zc)))
               (py_range 0 n par) = Inr groups"
    and sims: "sims = concat groups"
    by (auto simp: eval_groups_def ebind_eq_Inr split: if_splits)
  have "list_all2 (\<lambda>p_st g. length g \<le> min n (p_st + par) - p_st) (py_range 0 n par) groups"
  proof (rule list_all2_mono [OF mapM_Inr_all2 [OF gr]])
    fix p_st g
    assume "(let p_ed = min n (p_st + par)
             in mapM score (zip (slice p_st p_ed sc) (slice p_st p_ed zc))) = Inr g"
    then have "length g = length (zip (slice p_st (min n (p_st + par)) sc)
                                     (slice p_st (min n (p_st + par)) zc))"
      by (simp add: Let_def mapM_Inr_length)
    also have "\<dots> \<le> min n (p_st + par) - p_st"
      using length_slice_le [of p_st "min n (p_st + par)" sc] by simp
    finally show "length g \<le> min n (p_st + par) - p_st" .
  qed
  from group_lengths [OF this] show ?thesis
    by (simp add: sims)
qed

lemma eval_groups_take:
  "eval_groups score n par (take n sc) (take n zc) = eval_groups score n par sc zc"
  by (simp add: eval_groups_def Let_def slice_take)

lemma length_transpose_le: "(\<And>x. x \<in> set xss \<Longrightarrow> length x \<le> n) \<Longrightarrow> length (transpose xss) \<le> n"
  by (induction xss) (simp_all add: length_transpose)

lemma transpose_column_length:
  assumes "col \<in> set (transpose xss)"
  shows "length col \<le> length xss"
proof -
  from assms obtain i where i: "i < length (transpose xss)" and col: "col = transpose xss ! i"
    by (auto simp: in_set_conv_nth)
  show ?thesis
    unfolding col nth_transpose [OF i] by simp
qed

lemma best_indices_bound:
  assumes "best_indices batch_similarities = Inr best"
    and "\<And>sims. sims \<in> set batch_similarities \<Longrightarrow> length sims \<le> n"
  shows "list_all (\<lambda>i. i < n) best"
proof -
  define total where "total = map vsum (transpose batch_similarities)"
  from assms(1) have ne: "total \<noteq> []" and best: "best = map argmax (transpose total)"
    by (auto simp: best_indices_def Let_def total_def split: if_splits)
  have len: "length total \<le> n"
    unfolding total_def using length_transpose_le [of batch_similarities n] assms(2) by simp
  from ne have pos: "1 \<le> length total"
    by (cases total) simp_all
  have "argmax col < n" if "col \<in> set (transpose total)" for col
  proof -
    have "argmax col < max 1 (length col)"
      by (rule argmax_bound)
    also have "\<dots> \<le> length total"
      using transpose_column_length [OF that] pos by simp
    finally show ?thesis
      using len by simp
  qed
  then show ?thesis
    by (simp add: best list_all_iff)
qed

lemma search_A_chunk_length:
  "search_A_chunk ev m sc zc cs par A_all B_all b_st = Inr sims \<Longrightarrow> length sims \<le> eq_n m"
  by (cases "raw_out m")
     (auto simp: search_A_chunk_def Let_def ebind_eq_Inr dest: eval_groups_length)

lemma search_B_chunk_length:
  "search_B_chunk ev m sc zc cs par A_all B_all b_st = Inr sims \<Longrightarrow> length sims \<le> eq_n m"
  by (cases "raw_out m")
     (auto simp: search_B_chunk_def Let_def ebind_eq_Inr dest: eval_groups_length)

lemma mapM_Inr_set:
  "mapM f xs = Inr ys \<Longrightarrow> y \<in> set ys \<Longrightarrow> \<exists>x \<in> set xs. f x = Inr y"
  by (induction xs arbitrary: ys) (auto split: sum.splits)

lemma copy_view_Some: "copy_view dst src = Inr r \<Longrightarrow> r = Some src"
  by (auto simp: copy_view_def split: option.splits if_splits)

lemma gather_eq:
  "gather c best = Inr g \<Longrightarrow> g = map (\<lambda>(h, i). c ! i ! h) (zip [0..<length best] best)"
  by (auto simp: gather_def split: if_splits)

lemma search_best_A_scale_result:
  assumes "search_best_A_scale ev m sc zc = Inr (m', best)"
  shows "list_all (\<lambda>i. i < eq_n m) best
     \<and> scale (A_quantizer m') = Some (map (\<lambda>(h, i). sc ! i ! h) (zip [0..<length best] best))
     \<and> zero_point (A_quantizer m') = Some (map (\<lambda>(h, i). zc ! i ! h) (zip [0..<length best] best))
     \<and> B_quantizer m' = B_quantizer m"
proof -
  from assms obtain cs par A_all B_all bs tmp_s tmp_z s' z' where
    ch: "mapM (search_A_chunk ev m sc zc cs par A_all B_all) (py_range 0 cs (calib_batch_size m)) = Inr bs"
    and bi: "best_indices bs = Inr best"
    and gs: "gather sc best = Inr tmp_s" and gz: "gather zc best = Inr tmp_z"
    and cs: "copy_view (scale (A_quantizer m)) tmp_s = Inr s'"
    and cz: "copy_view (zero_point (A_quantizer m)) tmp_z = Inr z'"
    and m': "m' = m\<lparr>A_quantizer := (A_quantizer m)\<lparr>scale := s', zero_point := z'\<rparr>\<rparr>"
    by (auto simp: search_best_A_scale_def ebind_eq_Inr split: prod.splits)
  have "length sims \<le> eq_n m" if "sims \<in> set bs" for sims
    using mapM_Inr_set [OF ch that] by (auto dest: search_A_chunk_length)
  from best_indices_bound [OF bi this] have "list_all (\<lambda>i. i < eq_n m) best" .
  then show ?thesis
    using copy_view_Some [OF cs] copy_view_Some [OF cz] gather_eq [OF gs] gather_eq [OF gz]
    by (simp add: m')
qed

lemma search_best_B_scale_result:
  assumes "search_best_B_scale ev m sc zc = Inr (m', best)"
  shows "list_all (\<lambda>i. i < eq_n m) best
     \<and> scale (B_quantizer m') = Some (map (\<lambda>(h, i). sc ! i ! h) (zip [0..<length best] best))
     \<and> zero_point (B_quantizer m') = Some (map (\<lambda>(h, i). zc ! i ! h) (zip [0..<length best] best))
     \<and> A_quantizer m' = A_quantizer m"
proof -
  from assms obtain cs par A_all B_all bs tmp_s tmp_z s' z' where
    ch: "mapM (search_B_chunk ev m sc zc cs par A_all B_all) (py_range 0 cs (calib_batch_size m)) = Inr bs"
    and bi: "best_indices bs = Inr best"
    and gs: "gather sc best = Inr tmp_s" and gz: "gather zc best = Inr tmp_z"
    and cs: "copy_view (scale (B_quantizer m)) tmp_s = Inr s'"
    and cz: "copy_view (zero_point (B_quantizer m)) tmp_z = Inr z'"
    and m': "m' = m\<lparr>B_quantizer := (B_quantizer m)\<lparr>scale := s', zero_point := z'\<rparr>\<rparr>"
    by (auto simp: search_best_B_scale_def ebind_eq_Inr split: prod.splits)
  have "length sims \<le> eq_n m" if "sims \<in> set bs" for sims
    using mapM_Inr_set [OF ch that] by (auto dest: search_B_chunk_length)
  from best_indices_bound [OF bi this] have "list_all (\<lambda>i. i < eq_n m) best" .
  then show ?thesis
    using copy_view_Some [OF cs] copy_view_Some [OF cz] gather_eq [OF gs] gather_eq [OF gz]
    by (simp add: m')
qed

lemma mapM_append:
  "mapM f (xs @ ys) =
     (case mapM f xs of
        Inl e \<Rightarrow> Inl e
      | Inr a \<Rightarrow> (case mapM f ys of Inl e \<Rightarrow> Inl e | Inr b \<Rightarrow> Inr (a @ b)))"
  by (induction xs) (auto split: sum.splits)

lemma slice_zip: "zip (slice a b xs) (slice a b ys) = slice a b (zip xs ys)"
  by (simp add: slice_def take_zip drop_zip)

lemma drop_take_split:
  "drop i (take n zs) = slice i (min n (i + par)) zs @ drop (i + par) (take n zs)"
proof -
  define e where "e = min n (i + par)"
  have "drop i (take n zs) = take (e - i) (drop i (take n zs)) @ drop (e - i) (drop i (take n zs))"
    by (rule append_take_drop_id [symmetric])
  also have "take (e - i) (drop i (take n zs)) = slice i e zs"
    by (simp add: slice_def e_def drop_take min_def)
  also have "drop (e - i) (drop i (take n zs)) = drop (i + par) (take n zs)"
    by (cases "i + par \<le> n") (auto simp: e_def min_def add.commute)
  finally show ?thesis
    by (simp add: e_def)
qed

lemma groups_cover:
  "mapM (\<lambda>p_st. mapM score (slice p_st (min n (p_st + par)) zs)) (py_range i n par) = Inr groups
     \<Longrightarrow> par \<noteq> 0 \<Longrightarrow> mapM score (drop i (take n zs)) = Inr (concat groups)"
proof (induction i n par arbitrary: groups rule: py_range.induct)
  case (1 i n step)
  show ?case
  proof (cases "n \<le> i")
    case True
    with "1.prems" show ?thesis
      by (simp add: py_range.simps [of i n step])
  next
    case False
    with "1.prems" obtain g gs where gs: "groups = g # gs"
      and g: "mapM score (slice i (min n (i + step)) zs) = Inr g"
      and rest: "mapM (\<lambda>p_st. mapM score (slice p_st (min n (p_st + step)) zs))
                   (py_range (i + step) n step) = Inr gs"
      by (auto simp: py_range.simps [of i n step] split: sum.splits)
    from False "1.prems"(2) have "\<not> (step = 0 \<or> n \<le> i)"
      by simp
    from "1.IH" [OF this rest "1.prems"(2)]
    have "mapM score (drop (i + step) (take n zs)) = Inr (concat gs)" .
    with g show ?thesis
      by (subst drop_take_split [of i n zs step]) (simp add: mapM_append gs)
  qed
qed

lemma eval_groups_cover:
  assumes "eval_groups score n par sc zc = Inr sims"
  shows "mapM score (zip (take n sc) (take n zc)) = Inr sims"
proof -
  from assms obtain groups where par: "par \<noteq> 0"
    and gr: "mapM (\<lambda>p_st. mapM score (slice p_st (min n (p_st + par)) (zip sc zc)))
               (py_range 0 n par) = Inr groups"
    and sims: "sims = concat groups"
    by (auto simp: eval_groups_def ebind_eq_Inr Let_def slice_zip split: if_splits)
  from groups_cover [OF gr par] show ?thesis
    by (simp add: sims take_zip)
qed

text \<open>
  C10. A per-side search that returns has scored exactly the first \<open>eq_n\<close> candidates
  of the grid, in every chunk; the best index of every slot is below \<open>eq_n\<close>, and the
  scale and the zero point written into the quantizer are those gathered at the best
  indices. The candidate at index \<open>eq_n\<close>, the full range, is neither chosen nor
  written.
\<close>

theorem C10_search_skips_last_candidate:
  "(search_best_A_scale ev m sc zc = Inr (m', best) \<longrightarrow>
      list_all (\<lambda>i. i < eq_n m) best
      \<and> scale (A_quantizer m') = Some (map (\<lambda>(h, i). sc ! i ! h) (zip [0..<length best] best))
      \<and> zero_point (A_quantizer m')
          = Some (map (\<lambda>(h, i). zc ! i ! h) (zip [0..<length best] best)))
   \<and> (search_best_B_scale ev m sc zc = Inr (m'', best') \<longrightarrow>
      list_all (\<lambda>i. i < eq_n m) best'
      \<and> scale (B_quantizer m'') = Some (map (\<lambda>(h, i). sc ! i ! h) (zip [0..<length best'] best'))
      \<and> zero_point (B_quantizer m'')
          = Some (map (\<lambda>(h, i). zc ! i ! h) (zip [0..<length best'] best')))
   \<and> (eval_groups score n par sc zc = Inr sims \<longrightarrow>
      mapM score (zip (take n sc) (take n zc)) = Inr sims \<and> length sims \<le> n)"
  using search_best_A_scale_result [of ev m sc zc m' best]
    search_best_B_scale_result [of ev m sc zc m'' best']
    eval_groups_cover [of score n par sc zc sims] eval_groups_length [of score n par sc zc sims]
  by blast

theorem C10_search_skips_last_candidate_witness:
  "search_best_A_scale plain_env seeded_operator
     (A_scale_candidates small_candidates) (A_zero_point_candidates small_candidates)
     = Inr (searched_operator, [0])
   \<and> search_best_B_scale plain_env searched_operator
     (B_scale_candidates small_candidates) (B_zero_point_candidates small_candidates)
     = Inr (searched_operator, [1])
   \<and> eval_groups (\<lambda>c. Inr (fst c)) 2 1
        (A_scale_candidates small_candidates) (A_zero_point_candidates small_candidates)
       = Inr [[998], [49999 / 50]]
   \<and> list_all (\<lambda>i. i < eq_n seeded_operator) [0]
   \<and> list_all (\<lambda>i. i < eq_n searched_operator) [1]
   \<and> scale (A_quantizer searched_operator) = Some [998]
   \<and> scale (B_quantizer searched_operator) = Some [49999 / 25]
   \<and> length [[998], [49999 / 50 :: real]] \<le> 2"
proof -
  have a: "search_best_A_scale plain_env seeded_operator
     (A_scale_candidates small_candidates) (A_zero_point_candidates small_candidates)
     = Inr (searched_operator, [0])"
    by code_simp
  have b: "search_best_B_scale plain_env searched_operator
     (B_scale_candidates small_candidates) (B_zero_point_candidates small_candidates)
     = Inr (searched_operator, [1])"
    by code_simp
  have c: "eval_groups (\<lambda>c. Inr (fst c)) 2 1
        (A_scale_candidates small_candidates) (A_zero_point_candidates small_candidates)
       = Inr [[998], [49999 / 50]]"
    by code_simp
  have d: "scale (A_quantizer searched_operator) = Some [998]"
    "scale (B_quantizer searched_operator) = Some [49999 / 25]"
    by (simp_all add: searched_operator_def seeded_operator_def)
  from C10_search_skips_last_candidate
    [of plain_env seeded_operator "A_scale_candidates small_candidates"
        "A_zero_point_candidates small_candidates" searched_operator "[0]" _ _
        "\<lambda>c. Inr (fst c)" 2 1 "[[998], [49999 / 50]]"] a c
  have e: "list_all (\<lambda>i. i < eq_n seeded_operator) [0]"
    "length [[998], [49999 / 50 :: real]] \<le> 2"
    by blast+
  from C10_search_skips_last_candidate
    [of plain_env searched_operator "B_scale_candidates small_candidates"
        "B_zero_point_candidates small_candidates" _ _ searched_operator "[1]"] b
  have f: "list_all (\<lambda>i. i < eq_n searched_operator) [1]"
    by blast
  from a b c d e f show ?thesis
    by blast
qed

section \<open>The per-side search: the other operand\<close>

lemma eval_A_candidate_Inr:
  "eval_A_candidate m A B_sim out grad c = Inr s \<longleftrightarrow>
     (\<exists>A_sim out_sim similarity.
        candidate_sim (A_quantizer m) A (fst c) (snd c) = Inr A_sim
        \<and> t_matmul A_sim B_sim = Inr out_sim
        \<and> get_similarity out out_sim (metric m) grad = Inr similarity
        \<and> s = reduce_similarity (head_channel_wise m) similarity)"
  by (auto simp: eval_A_candidate_def ebind_eq_Inr)

lemma eval_B_candidate_Inr:
  "eval_B_candidate m A_sim B out grad c = Inr s \<longleftrightarrow>
     (\<exists>B_sim out_sim similarity.
        candidate_sim (B_quantizer m) B (fst c) (snd c) = Inr B_sim
        \<and> t_matmul A_sim B_sim = Inr out_sim
        \<and> get_similarity out out_sim (metric m) grad = Inr similarity
        \<and> s = reduce_similarity (head_channel_wise m) similarity)"
  by (auto simp: eval_B_candidate_def ebind_eq_Inr)

lemma search_A_chunk_scores:
  assumes "search_A_chunk ev m sc zc cs par A_all B_all b_st = Inr sims"
  shows "\<exists>B_sim out_all grad.
      forward (rand_like ev) (B_quantizer m)
        (slice b_st (min cs (b_st + calib_batch_size m)) B_all) = Inr B_sim
      \<and> raw_out m = Value out_all
      \<and> grad_chunk (raw_grad m) b_st (min cs (b_st + calib_batch_size m)) = Inr grad
      \<and> list_all2
          (\<lambda>c s. \<exists>A_sim out_sim similarity.
             candidate_sim (A_quantizer m)
               (slice b_st (min cs (b_st + calib_batch_size m)) A_all) (fst c) (snd c) = Inr A_sim
             \<and> t_matmul A_sim B_sim = Inr out_sim
             \<and> get_similarity (slice b_st (min cs (b_st + calib_batch_size m)) out_all)
                  out_sim (metric m) grad = Inr similarity
             \<and> s = reduce_similarity (head_channel_wise m) similarity)
          (zip (take (eq_n m) sc) (take (eq_n m) zc)) sims"
proof -
  define b_ed where "b_ed = min cs (b_st + calib_batch_size m)"
  from assms obtain B_sim out_all grad where
    q: "quant_input_B ev m (slice b_st b_ed B_all) = Inr B_sim"
    and out: "raw_out m = Value out_all"
    and g: "grad_chunk (raw_grad m) b_st b_ed = Inr grad"
    and ev: "eval_groups (eval_A_candidate m (slice b_st b_ed A_all) B_sim
                (slice b_st b_ed out_all) grad) (eq_n m) par sc zc = Inr sims"
    by (cases "raw_out m") (auto simp: search_A_chunk_def Let_def ebind_eq_Inr b_ed_def)
  from mapM_Inr_all2 [OF eval_groups_cover [OF ev]]
  have "list_all2
          (\<lambda>c s. eval_A_candidate m (slice b_st b_ed A_all) B_sim (slice b_st b_ed out_all) grad c
                  = Inr s)
          (zip (take (eq_n m) sc) (take (eq_n m) zc)) sims" .
  then show ?thesis
    using q out g unfolding eval_A_candidate_Inr quant_input_B_def b_ed_def by blast
qed

lemma search_B_chunk_scores:
  assumes "search_B_chunk ev m sc zc cs par A_all B_all b_st = Inr sims"
  shows "\<exists>A_sim out_all grad.
      forward (rand_like ev) (A_quantizer m)
        (slice b_st (min cs (b_st + calib_batch_size m)) A_all) = Inr A_sim
      \<and> raw_out m = Value out_all
      \<and> grad_chunk (raw_grad m) b_st (min cs (b_st + calib_batch_size m)) = Inr grad
      \<and> list_all2
          (\<lambda>c s. \<exists>B_sim out_sim similarity.
             candidate_sim (B_quantizer m)
               (slice b_st (min cs (b_st + calib_batch_size m)) B_all) (fst c) (snd c) = Inr B_sim
             \<and> t_matmul A_sim B_sim = Inr out_sim
             \<and> get_similarity (slice b_st (min cs (b_st + calib_batch_size m)) out_all)
                  out_sim (metric m) grad = Inr similarity
             \<and> s = reduce_similarity (head_channel_wise m) similarity)
          (zip (take (eq_n m) sc) (take (eq_n m) zc)) sims"
proof -
  define b_ed where "b_ed = min cs (b_st + calib_batch_size m)"
  from assms obtain A_sim out_all grad where
    q: "quant_input_A ev m (slice b_st b_ed A_all) = Inr A_sim"
    and out: "raw_out m = Value out_all"
    and g: "grad_chunk (raw_grad m) b_st b_ed = Inr grad"
    and ev: "eval_groups (eval_B_candidate m A_sim (slice b_st b_ed B_all)
                (slice b_st b_ed out_all) grad) (eq_n m) par sc zc = Inr sims"
    by (cases "raw_out m") (auto simp: search_B_chunk_def Let_def ebind_eq_Inr b_ed_def)
  from mapM_Inr_all2 [OF eval_groups_cover [OF ev]]
  have "list_all2
          (\<lambda>c s. eval_B_candidate m A_sim (slice b_st b_ed B_all) (slice b_st b_ed out_all) grad c
                  = Inr s)
          (zip (take (eq_n m) sc) (take (eq_n m) zc)) sims" .
  then show ?thesis
    using q out g unfolding eval_B_candidate_Inr quant_input_A_def b_ed_def by blast
qed

lemma forward_32: "n_bits q = 32 \<Longrightarrow> forward rnd q x = Inr x"
  by (simp add: forward_def)


lemma seed_parameters_inited:
  "seed_parameters m c = Inr ms \<Longrightarrow> inited (A_quantizer ms) \<and> inited (B_quantizer ms)"
  by (auto simp: seed_parameters_def ebind_eq_Inr)

lemma seed_stage_parts:
  assumes "seed_stage ev m = Inr (ms, c)"
  obtains m1 A B where
    "initialize_calib_parameters ev m = Inr m1"
    "raw_input m1 = Value (A, B)"
    "calculate_percentile_candidates ev m1 A (999 / 1000) (99999 / 100000) (1 / 10)
       = Inr (A_uppers_candidates c, A_lowers_candidates c)"
    "calculate_percentile_candidates ev m1 B (999 / 1000) (99999 / 100000) (1 / 10)
       = Inr (B_uppers_candidates c, B_lowers_candidates c)"
    "cand_scale (A_quantizer m1) (A_uppers_candidates c) (A_lowers_candidates c)
       = Inr (A_scale_candidates c)"
    "cand_zero_point (A_lowers_candidates c) (A_scale_candidates c)
       = Inr (A_zero_point_candidates c)"
    "cand_scale (B_quantizer m1) (B_uppers_candidates c) (B_lowers_candidates c)
       = Inr (B_scale_candidates c)"
    "cand_zero_point (B_lowers_candidates c) (B_scale_candidates c)
       = Inr (B_zero_point_candidates c)"
    "seed_parameters m1 c = Inr ms"
proof -
  from assms obtain m1 where i: "initialize_calib_parameters ev m = Inr m1"
    and rest: "(case raw_input m1 of
         Absent \<Rightarrow> Inl AttributeError
       | PyNone \<Rightarrow> Inl TypeError
       | Value (A, B) \<Rightarrow>
           ebind (calculate_percentile_candidates ev m1 A (999 / 1000) (99999 / 100000) (1 / 10))
             (\<lambda>(A_up, A_lo).
           ebind (calculate_percentile_candidates ev m1 B (999 / 1000) (99999 / 100000) (1 / 10))
             (\<lambda>(B_up, B_lo).
           ebind (cand_scale (A_quantizer m1) A_up A_lo) (\<lambda>A_sc.
           ebind (cand_zero_point A_lo A_sc) (\<lambda>A_zp.
           ebind (cand_scale (B_quantizer m1) B_up B_lo) (\<lambda>B_sc.
           ebind (cand_zero_point B_lo B_sc) (\<lambda>B_zp.
             let c = \<lparr> A_uppers_candidates = A_up, A_lowers_candidates = A_lo,
                       B_uppers_candidates = B_up, B_lowers_candidates = B_lo,
                       A_scale_candidates = A_sc, A_zero_point_candidates = A_zp,
                       B_scale_candidates = B_sc, B_zero_point_candidates = B_zp \<rparr>
             in ebind (seed_parameters m1 c) (\<lambda>m2. Inr (m2, c))))))))) = Inr (ms, c)"
    unfolding seed_stage_def ebind_eq_Inr by blast
  from rest obtain A B where ri: "raw_input m1 = Value (A, B)"
    by (cases "raw_input m1") auto
  from rest show thesis
    unfolding ri
    by (auto simp: ebind_eq_Inr Let_def intro!: that [OF i ri])
qed

lemma seed_stage_inited:
  "seed_stage ev m = Inr (ms, c) \<Longrightarrow> inited (A_quantizer ms) \<and> inited (B_quantizer ms)"
  by (erule seed_stage_parts) (rule seed_parameters_inited)

text \<open>
  C3 (as the code has it). The first search of the left side runs on the seeded
  operator, whose right quantizer is initialised with the seed: the right operand
  (0, 6000, 0) enters the product as (0, 5999.88, 0), and the two candidates score
  -57370.2304 and about -5.5319 * 10^8. With the float operand, as the claim has it for
  a first optimisation, they would score 0 and -564537600.
\<close>

theorem C3_first_search_float_counterexample:
  "seed_stage plain_env small_operator = Inr (seeded_operator, small_candidates)
   \<and> n_bits (B_quantizer seeded_operator) \<noteq> 32
   \<and> quant_input_B plain_env seeded_operator [[[[0], [6000], [0]]]]
       = Inr [[[[0], [149997 / 25], [0]]]]
   \<and> [[[[0], [149997 / 25], [0]]]] \<noteq> [[[[0], [6000 :: real], [0]]]]
   \<and> search_A_chunk plain_env seeded_operator
        (A_scale_candidates small_candidates) (A_zero_point_candidates small_candidates)
        1 1 [[[[0, 1996, 3000]]]] [[[[0], [6000], [0]]]] 0
       = Inr [[- (35856144 / 625)], [- (216090088200009 / 390625)]]
   \<and> mapM (eval_A_candidate seeded_operator [[[[0, 1996, 3000]]]] [[[[0], [6000], [0]]]]
              [[[[11976000]]]] None)
        (zip (take 2 (A_scale_candidates small_candidates))
             (take 2 (A_zero_point_candidates small_candidates)))
       = Inr [[0], [- 564537600]]"
  by code_simp

text \<open>
  C3 (amended). In the per-side search every candidate that is evaluated is scored on
  the product of the searched operand, quantized with that candidate, and the other
  operand passed through its own quantizer with the parameters it has at that moment.
  The other operand is the float tensor only when its bit-width is 32. The first search
  is no exception: it runs after the seed, with both quantizers initialised.
\<close>

theorem C3_other_side_through_quantizer:
  "(search_A_chunk ev m sc zc cs par A_all B_all b_st = Inr sims \<longrightarrow>
      (\<exists>B_sim out_all grad.
         forward (rand_like ev) (B_quantizer m)
           (slice b_st (min cs (b_st + calib_batch_size m)) B_all) = Inr B_sim
         \<and> raw_out m = Value out_all
         \<and> grad_chunk (raw_grad m) b_st (min cs (b_st + calib_batch_size m)) = Inr grad
         \<and> list_all2
             (\<lambda>c s. \<exists>A_sim out_sim similarity.
                candidate_sim (A_quantizer m)
                  (slice b_st (min cs (b_st + calib_batch_size m)) A_all) (fst c) (snd c)
                  = Inr A_sim
                \<and> t_matmul A_sim B_sim = Inr out_sim
                \<and> get_similarity (slice b_st (min cs (b_st + calib_batch_size m)) out_all)
                     out_sim (metric m) grad = Inr similarity
                \<and> s = reduce_similarity (head_channel_wise m) similarity)
             (zip (take (eq_n m) sc) (take (eq_n m) zc)) sims))
   \<and> (search_B_chunk ev m sc zc cs par A_all B_all b_st = Inr sims' \<longrightarrow>
      (\<exists>A_sim out_all grad.
         forward (rand_like ev) (A_quantizer m)
           (slice b_st (min cs (b_st + calib_batch_size m)) A_all) = Inr A_sim
         \<and> raw_out m = Value out_all
         \<and> grad_chunk (raw_grad m) b_st (min cs (b_st + calib_batch_size m)) = Inr grad
         \<and> list_all2
             (\<lambda>c s. \<exists>B_sim out_sim similarity.
                candidate_sim (B_quantizer m)
                  (slice b_st (min cs (b_st + calib_batch_size m)) B_all) (fst c) (snd c)
                  = Inr B_sim
                \<and> t_matmul A_sim B_sim = Inr out_sim
                \<and> get_similarity (slice b_st (min cs (b_st + calib_batch_size m)) out_all)
                     out_sim (metric m) grad = Inr similarity
                \<and> s = reduce_similarity (head_channel_wise m) similarity)
             (zip (take (eq_n m) sc) (take (eq_n m) zc)) sims'))
   \<and> (n_bits q = 32 \<longrightarrow> forward rnd q x = Inr x)
   \<and> (seed_stage ev m0 = Inr (ms, c) \<longrightarrow>
        inited (A_quantizer ms) \<and> inited (B_quantizer ms)
        \<and> hyperparameter_searching ev m0 = search_stage ev (ms, c))"
proof -
  have hs: "hyperparameter_searching ev m0 = search_stage ev (ms, c)"
    if "seed_stage ev m0 = Inr (ms, c)"
    using that by (simp add: hyperparameter_searching_def ebind_Inr)
  show ?thesis
    using search_A_chunk_scores [of ev m sc zc cs par A_all B_all b_st sims]
      search_B_chunk_scores [of ev m sc zc cs par A_all B_all b_st sims']
      forward_32 [of q rnd x] seed_stage_inited [of ev m0 ms c] hs
    by blast
qed

theorem C3_other_side_through_quantizer_witness:
  "search_A_chunk plain_env seeded_operator
        (A_scale_candidates small_candidates) (A_zero_point_candidates small_candidates)
        1 1 [[[[0, 1996, 3000]]]] [[[[0], [6000], [0]]]] 0
       = Inr [[- (35856144 / 625)], [- (216090088200009 / 390625)]]
   \<and> search_B_chunk plain_env searched_operator
        (B_scale_candidates small_candidates) (B_zero_point_candidates small_candidates)
        1 1 [[[[0, 1996, 3000]]]] [[[[0], [6000], [0]]]] 0
       = Inr [[- 573698304], [- (35856144 / 625)]]
   \<and> n_bits (B_quantizer wide_operator) = 32
   \<and> seed_stage plain_env small_operator = Inr (seeded_operator, small_candidates)
   \<and> (\<exists>B_sim. forward (rand_like plain_env) (B_quantizer seeded_operator)
           (slice 0 (min 1 (0 + calib_batch_size seeded_operator)) [[[[0], [6000], [0]]]])
           = Inr B_sim)
   \<and> (\<exists>A_sim. forward (rand_like plain_env) (A_quantizer searched_operator)
           (slice 0 (min 1 (0 + calib_batch_size searched_operator)) [[[[0, 1996, 3000]]]])
           = Inr A_sim)
   \<and> forward id (B_quantizer wide_operator) [[[[1 / 3]]]] = Inr [[[[1 / 3]]]]
   \<and> inited (A_quantizer seeded_operator) \<and> inited (B_quantizer seeded_operator)"
proof -
  have a: "search_A_chunk plain_env seeded_operator
        (A_scale_candidates small_candidates) (A_zero_point_candidates small_candidates)
        1 1 [[[[0, 1996, 3000]]]] [[[[0], [6000], [0]]]] 0
       = Inr [[- (35856144 / 625)], [- (216090088200009 / 390625)]]"
    by code_simp
  have b: "search_B_chunk plain_env searched_operator
        (B_scale_candidates small_candidates) (B_zero_point_candidates small_candidates)
        1 1 [[[[0, 1996, 3000]]]] [[[[0], [6000], [0]]]] 0
       = Inr [[- 573698304], [- (35856144 / 625)]]"
    by code_simp
  have w: "n_bits (B_quantizer wide_operator) = 32"
    by (simp add: wide_operator_def UniformQuantizer_init_def)
  have s: "seed_stage plain_env small_operator = Inr (seeded_operator, small_candidates)"
    by code_simp
  note A = C3_other_side_through_quantizer
    [of plain_env seeded_operator "A_scale_candidates small_candidates"
        "A_zero_point_candidates small_candidates" 1 1 "[[[[0, 1996, 3000]]]]"
        "[[[[0], [6000], [0]]]]" 0 "[[- (35856144 / 625)], [- (216090088200009 / 390625)]]"
        _ "B_quantizer wide_operator" id "[[[[1 / 3]]]]" small_operator seeded_operator
        small_candidates]
  note B = C3_other_side_through_quantizer
    [of plain_env searched_operator "B_scale_candidates small_candidates"
        "B_zero_point_candidates small_candidates" 1 1 "[[[[0, 1996, 3000]]]]"
        "[[[[0], [6000], [0]]]]" 0 _ "[[- 573698304], [- (35856144 / 625)]]"]
  from A a have c1: "\<exists>B_sim. forward (rand_like plain_env) (B_quantizer seeded_operator)
           (slice 0 (min 1 (0 + calib_batch_size seeded_operator)) [[[[0], [6000], [0]]]])
           = Inr B_sim"
    by blast
  from B b have c2: "\<exists>A_sim. forward (rand_like plain_env) (A_quantizer searched_operator)
           (slice 0 (min 1 (0 + calib_batch_size searched_operator)) [[[[0, 1996, 3000]]]])
           = Inr A_sim"
    by blast
  from A w have c3: "forward id (B_quantizer wide_operator) [[[[1 / 3]]]] = Inr [[[[1 / 3]]]]"
    by blast
  from A s have c4: "inited (A_quantizer seeded_operator) \<and> inited (B_quantizer seeded_operator)"
    by blast
  from a b w s c1 c2 c3 c4 show ?thesis
    by blast
qed

section \<open>The seed of the quantizer parameters\<close>

























section \<open>The refinement rounds\<close>

lemma ebind_assoc: "ebind (ebind r f) g = ebind r (\<lambda>x. ebind (f x) g)"
  by (cases r) (simp_all add: ebind_def)

lemma refine_A_phase_0: "refine_A_phase ev c st 0 = upper_held_lower_swept_A ev c st"
  by (simp add: refine_A_phase_def upper_held_lower_swept_A_def ebind_assoc ebind_Inr)

lemma refine_A_phase_1: "refine_A_phase ev c st (Suc 0) = lower_held_upper_swept_A ev c st"
  by (simp add: refine_A_phase_def lower_held_upper_swept_A_def ebind_assoc ebind_Inr)

lemma refine_B_phase_0: "refine_B_phase ev c st 0 = upper_held_lower_swept_B ev c st"
  by (simp add: refine_B_phase_def upper_held_lower_swept_B_def ebind_assoc ebind_Inr)

lemma refine_B_phase_1: "refine_B_phase ev c st (Suc 0) = lower_held_upper_swept_B ev c st"
  by (simp add: refine_B_phase_def lower_held_upper_swept_B_def ebind_assoc ebind_Inr)

lemma foldM_two: "foldM f s [0..<2] = ebind (f s 0) (\<lambda>s'. f s' (Suc 0))"
proof -
  have "[0..<2] = [0, 1]"
    by (simp add: upt_conv_Cons)
  then show ?thesis
    by (cases "f s 0") (auto simp: ebind_def split: sum.splits)
qed

lemma A_phases_B_quantizer:
  "upper_held_lower_swept_A ev c st = Inr st' \<Longrightarrow> B_quantizer (fst st') = B_quantizer (fst st)"
  "lower_held_upper_swept_A ev c st = Inr st' \<Longrightarrow> B_quantizer (fst st') = B_quantizer (fst st)"
  by (cases st',
      auto simp: upper_held_lower_swept_A_def lower_held_upper_swept_A_def ebind_eq_Inr
           dest!: search_best_A_scale_result)+

lemma B_phases_A_quantizer:
  "upper_held_lower_swept_B ev c st = Inr st' \<Longrightarrow> A_quantizer (fst st') = A_quantizer (fst st)"
  "lower_held_upper_swept_B ev c st = Inr st' \<Longrightarrow> A_quantizer (fst st') = A_quantizer (fst st)"
  by (cases st',
      auto simp: upper_held_lower_swept_B_def lower_held_upper_swept_B_def ebind_eq_Inr
           dest!: search_best_B_scale_result)+

lemma refine_side_A_eq:
  "(if n_bits (A_quantizer m) < 32 then foldM (refine_A_phase ev c) (m, Ab) [0..<2]
    else Inr (m, Ab)) = refine_side_A ev c (m, Ab)"
  by (simp only: refine_side_A_def foldM_two refine_A_phase_0 refine_A_phase_1 fst_conv)

lemma refine_side_B_eq:
  "(if n_bits (B_quantizer m) < 32 then foldM (refine_B_phase ev c) (m, Bb) [0..<2]
    else Inr (m, Bb)) = refine_side_B ev c (m, Bb)"
  by (simp only: refine_side_B_def foldM_two refine_B_phase_0 refine_B_phase_1 fst_conv)

lemma refine_round_sides:
  "refine_round ev c (m, Ab, Bb) e =
     ebind (refine_side_A ev c (m, Ab)) (\<lambda>sa.
       ebind (refine_side_B ev c (fst sa, Bb)) (\<lambda>sb. Inr (fst sb, snd sa, snd sb)))"
  unfolding refine_round_def prod.case refine_side_A_eq refine_side_B_eq case_prod_beta
  by (simp only: fst_conv snd_conv)

lemma search_best_A_scale_frame:
  "search_best_A_scale ev m sc zc = Inr r \<Longrightarrow>
     search_round (fst r) = search_round m \<and> n_bits (A_quantizer (fst r)) = n_bits (A_quantizer m)"
  by (auto simp: search_best_A_scale_def ebind_eq_Inr split: prod.splits)

lemma search_best_B_scale_frame:
  "search_best_B_scale ev m sc zc = Inr r \<Longrightarrow>
     search_round (fst r) = search_round m \<and> n_bits (B_quantizer (fst r)) = n_bits (B_quantizer m)"
  by (auto simp: search_best_B_scale_def ebind_eq_Inr split: prod.splits)

lemma refine_side_A_frame:
  assumes "refine_side_A ev c st = Inr st'"
  shows "B_quantizer (fst st') = B_quantizer (fst st)"
proof (cases "n_bits (A_quantizer (fst st)) < 32")
  case True
  with assms obtain s1 where "upper_held_lower_swept_A ev c st = Inr s1"
    "lower_held_upper_swept_A ev c s1 = Inr st'"
    by (auto simp: refine_side_A_def ebind_eq_Inr)
  then show ?thesis
    by (simp add: A_phases_B_quantizer)
next
  case False
  with assms show ?thesis
    by (simp add: refine_side_A_def)
qed

lemma refine_side_B_frame:
  assumes "refine_side_B ev c st = Inr st'"
  shows "A_quantizer (fst st') = A_quantizer (fst st)"
proof (cases "n_bits (B_quantizer (fst st)) < 32")
  case True
  with assms obtain s1 where "upper_held_lower_swept_B ev c st = Inr s1"
    "lower_held_upper_swept_B ev c s1 = Inr st'"
    by (auto simp: refine_side_B_def ebind_eq_Inr)
  then show ?thesis
    by (simp add: B_phases_A_quantizer)
next
  case False
  with assms show ?thesis
    by (simp add: refine_side_B_def)
qed

text \<open>
  C8. A refinement round refines the left side, then the right side. A side with fewer
  than 32 bits goes through exactly two searches, in this order: the upper percentile
  held at the current best index with the lower percentiles swept, then the lower
  percentile held at the new best index with the upper percentiles swept. A side with
  32 bits goes through none: its quantizer and its best index leave the round as they
  entered it.
\<close>

theorem C8_refinement_round_phases:
  "refine_round ev c (m, Ab, Bb) e =
     ebind (refine_side_A ev c (m, Ab)) (\<lambda>sa.
       ebind (refine_side_B ev c (fst sa, Bb)) (\<lambda>sb. Inr (fst sb, snd sa, snd sb)))
   \<and> (n_bits (A_quantizer m) < 32 \<longrightarrow>
        refine_side_A ev c (m, Ab)
          = ebind (upper_held_lower_swept_A ev c (m, Ab)) (lower_held_upper_swept_A ev c))
   \<and> (n_bits (B_quantizer m) < 32 \<longrightarrow>
        refine_side_B ev c (m, Bb)
          = ebind (upper_held_lower_swept_B ev c (m, Bb)) (lower_held_upper_swept_B ev c))
   \<and> (n_bits (A_quantizer m) = 32 \<longrightarrow> refine_side_A ev c (m, Ab) = Inr (m, Ab))
   \<and> (n_bits (B_quantizer m) = 32 \<longrightarrow> refine_side_B ev c (m, Bb) = Inr (m, Bb))
   \<and> (n_bits (A_quantizer m) = 32 \<and> refine_round ev c (m, Ab, Bb) e = Inr (m', Ab', Bb') \<longrightarrow>
        A_quantizer m' = A_quantizer m \<and> Ab' = Ab)
   \<and> (n_bits (B_quantizer m) = 32 \<and> refine_round ev c (m, Ab, Bb) e = Inr (m', Ab', Bb') \<longrightarrow>
        B_quantizer m' = B_quantizer m \<and> Bb' = Bb)"
proof -
  note rs = refine_round_sides [of ev c m Ab Bb e]
  have a32: "refine_side_A ev c (m, Ab) = Inr (m, Ab)" if "n_bits (A_quantizer m) = 32"
    using that by (simp add: refine_side_A_def)
  have b32: "refine_side_B ev c (x, Bb) = Inr (x, Bb)" if "n_bits (B_quantizer x) = 32" for x
    using that by (simp add: refine_side_B_def)
  have keepA: "A_quantizer m' = A_quantizer m \<and> Ab' = Ab"
    if "n_bits (A_quantizer m) = 32" "refine_round ev c (m, Ab, Bb) e = Inr (m', Ab', Bb')"
  proof -
    from that obtain sb where sb: "refine_side_B ev c (m, Bb) = Inr sb"
      and r: "m' = fst sb" "Ab' = Ab"
      by (auto simp: rs a32 ebind_eq_Inr ebind_Inr)
    from refine_side_B_frame [OF sb] r show ?thesis
      by simp
  qed
  have keepB: "B_quantizer m' = B_quantizer m \<and> Bb' = Bb"
    if "n_bits (B_quantizer m) = 32" "refine_round ev c (m, Ab, Bb) e = Inr (m', Ab', Bb')"
  proof -
    from that(2) obtain sa sb where sa: "refine_side_A ev c (m, Ab) = Inr sa"
      and sb: "refine_side_B ev c (fst sa, Bb) = Inr sb"
      and r: "m' = fst sb" "Bb' = snd sb"
      by (auto simp: rs ebind_eq_Inr)
    from refine_side_A_frame [OF sa] have q: "B_quantizer (fst sa) = B_quantizer m"
      by simp
    with that(1) sb have "sb = (fst sa, Bb)"
      by (simp add: b32)
    with r q show ?thesis
      by simp
  qed
  show ?thesis
    using rs a32 b32 [of m] keepA keepB
    by (simp add: refine_side_A_def refine_side_B_def)
qed

theorem C8_refinement_round_phases_witness:
  "n_bits (A_quantizer searched_operator) < 32 \<and> n_bits (B_quantizer searched_operator) < 32
   \<and> n_bits (B_quantizer wide_operator) = 32 \<and> n_bits (A_quantizer wide_A_operator) = 32
   \<and> refine_round plain_env small_candidates (wide_operator, [0], [1]) 0
       = Inr (wide_operator, [0], [1])
   \<and> refine_round plain_env small_candidates (wide_A_operator, [0], [1]) 0
       = Inr (wide_A_operator, [0], [1])
   \<and> refine_side_A plain_env small_candidates (searched_operator, [0])
       = ebind (upper_held_lower_swept_A plain_env small_candidates (searched_operator, [0]))
           (lower_held_upper_swept_A plain_env small_candidates)
   \<and> refine_side_B plain_env small_candidates (searched_operator, [1])
       = ebind (upper_held_lower_swept_B plain_env small_candidates (searched_operator, [1]))
           (lower_held_upper_swept_B plain_env small_candidates)
   \<and> refine_side_B plain_env small_candidates (wide_operator, [1]) = Inr (wide_operator, [1])
   \<and> refine_side_A plain_env small_candidates (wide_A_operator, [0])
       = Inr (wide_A_operator, [0])
   \<and> upper_held_lower_swept_B plain_env small_candidates (searched_operator, [1])
       = Inr (searched_operator, [0])
   \<and> lower_held_upper_swept_B plain_env small_candidates (searched_operator, [0])
       = Inr (searched_operator, [1])"
proof -
  have n: "n_bits (A_quantizer searched_operator) < 32"
    "n_bits (B_quantizer searched_operator) < 32"
    by (simp_all add: searched_operator_def seeded_operator_def small_operator_def
          AsymmetricallyBatchingQuantMatMul_init_def UniformQuantizer_init_def)
  have w: "n_bits (B_quantizer wide_operator) = 32" "n_bits (A_quantizer wide_A_operator) = 32"
    by (simp_all add: wide_operator_def wide_A_operator_def UniformQuantizer_init_def)
  have r1: "refine_round plain_env small_candidates (wide_operator, [0], [1]) 0
       = Inr (wide_operator, [0], [1])"
    by code_simp
  have r2: "refine_round plain_env small_candidates (wide_A_operator, [0], [1]) 0
       = Inr (wide_A_operator, [0], [1])"
    by code_simp
  have p: "upper_held_lower_swept_B plain_env small_candidates (searched_operator, [1])
       = Inr (searched_operator, [0])"
    "lower_held_upper_swept_B plain_env small_candidates (searched_operator, [0])
       = Inr (searched_operator, [1])"
    by code_simp+
  note N = C8_refinement_round_phases
    [of plain_env small_candidates searched_operator "[0]" "[1]" 0]
  note W = C8_refinement_round_phases
    [of plain_env small_candidates wide_operator "[0]" "[1]" 0 wide_operator "[0]" "[1]"]
  note WA = C8_refinement_round_phases
    [of plain_env small_candidates wide_A_operator "[0]" "[1]" 0 wide_A_operator "[0]" "[1]"]
  from N n have c1: "refine_side_A plain_env small_candidates (searched_operator, [0])
       = ebind (upper_held_lower_swept_A plain_env small_candidates (searched_operator, [0]))
           (lower_held_upper_swept_A plain_env small_candidates)"
    and c2: "refine_side_B plain_env small_candidates (searched_operator, [1])
       = ebind (upper_held_lower_swept_B plain_env small_candidates (searched_operator, [1]))
           (lower_held_upper_swept_B plain_env small_candidates)"
    by blast+
  from W w r1 have c3: "refine_side_B plain_env small_candidates (wide_operator, [1])
       = Inr (wide_operator, [1])"
    by blast
  from WA w r2 have c4: "refine_side_A plain_env small_candidates (wide_A_operator, [0])
       = Inr (wide_A_operator, [0])"
    by blast
  from n w r1 r2 p c1 c2 c3 c4 show ?thesis
    by blast
qed

section \<open>The search and the orchestrator leave the modes alone\<close>

lemma foldM_invariant:
  assumes "foldM f s xs = Inr s'" and "P s"
    and "\<And>a x b. P a \<Longrightarrow> f a x = Inr b \<Longrightarrow> P b"
  shows "P s'"
  using assms(1,2)
proof (induction xs arbitrary: s)
  case Nil
  then show ?case by simp
next
  case (Cons x xs)
  from Cons.prems(1) obtain b where b: "f s x = Inr b" and rest: "foldM f b xs = Inr s'"
    by (auto split: sum.splits)
  from assms(3) [OF Cons.prems(2) b] have "P b" .
  from Cons.IH [OF rest this] show ?case .
qed

lemma seed_parameters_mode: "seed_parameters m c = Inr ms \<Longrightarrow> mode ms = mode m"
  by (auto simp: seed_parameters_def ebind_eq_Inr)

lemma initialize_calib_parameters_mode:
  "initialize_calib_parameters ev m = Inr m' \<Longrightarrow> mode m' = mode m"
  by (auto simp: initialize_calib_parameters_def ebind_eq_Inr Let_def
           split: attr.splits prod.splits if_splits)

lemma seed_stage_mode: "seed_stage ev m = Inr (ms, c) \<Longrightarrow> mode ms = mode m"
  by (erule seed_stage_parts)
     (simp add: seed_parameters_mode initialize_calib_parameters_mode)

lemma search_best_A_scale_mode:
  "search_best_A_scale ev m sc zc = Inr r \<Longrightarrow> mode (fst r) = mode m"
  by (auto simp: search_best_A_scale_def ebind_eq_Inr split: prod.splits)

lemma search_best_B_scale_mode:
  "search_best_B_scale ev m sc zc = Inr r \<Longrightarrow> mode (fst r) = mode m"
  by (auto simp: search_best_B_scale_def ebind_eq_Inr split: prod.splits)

lemma phases_mode:
  "upper_held_lower_swept_A ev c st = Inr st' \<Longrightarrow> mode (fst st') = mode (fst st)"
  "lower_held_upper_swept_A ev c st = Inr st' \<Longrightarrow> mode (fst st') = mode (fst st)"
  "upper_held_lower_swept_B ev c st = Inr st' \<Longrightarrow> mode (fst st') = mode (fst st)"
  "lower_held_upper_swept_B ev c st = Inr st' \<Longrightarrow> mode (fst st') = mode (fst st)"
  by (auto simp: upper_held_lower_swept_A_def lower_held_upper_swept_A_def
        upper_held_lower_swept_B_def lower_held_upper_swept_B_def ebind_eq_Inr
        dest: search_best_A_scale_mode search_best_B_scale_mode)

lemma refine_side_A_mode:
  assumes "refine_side_A ev c st = Inr st'"
  shows "mode (fst st') = mode (fst st)"
proof (cases "n_bits (A_quantizer (fst st)) < 32")
  case True
  with assms obtain s1 where p1: "upper_held_lower_swept_A ev c st = Inr s1"
    and p2: "lower_held_upper_swept_A ev c s1 = Inr st'"
    by (auto simp: refine_side_A_def ebind_eq_Inr)
  from phases_mode(1) [OF p1] phases_mode(2) [OF p2] show ?thesis
    by simp
next
  case False
  with assms show ?thesis
    by (simp add: refine_side_A_def)
qed

lemma refine_side_B_mode:
  assumes "refine_side_B ev c st = Inr st'"
  shows "mode (fst st') = mode (fst st)"
proof (cases "n_bits (B_quantizer (fst st)) < 32")
  case True
  with assms obtain s1 where p1: "upper_held_lower_swept_B ev c st = Inr s1"
    and p2: "lower_held_upper_swept_B ev c s1 = Inr st'"
    by (auto simp: refine_side_B_def ebind_eq_Inr)
  from phases_mode(3) [OF p1] phases_mode(4) [OF p2] show ?thesis
    by simp
next
  case False
  with assms show ?thesis
    by (simp add: refine_side_B_def)
qed

lemma refine_round_mode:
  assumes "refine_round ev c st e = Inr st'"
  shows "mode (fst st') = mode (fst st)"
proof -
  obtain m Ab Bb where st: "st = (m, Ab, Bb)"
    by (cases st)
  from assms obtain sa sb where sa: "refine_side_A ev c (m, Ab) = Inr sa"
    and sb: "refine_side_B ev c (fst sa, Bb) = Inr sb" and r: "st' = (fst sb, snd sa, snd sb)"
    unfolding st refine_round_sides by (auto simp: ebind_eq_Inr)
  from refine_side_A_mode [OF sa] refine_side_B_mode [OF sb] show ?thesis
    by (simp add: st r)
qed

lemma finish_search_mode: "finish_search m = Inr m' \<Longrightarrow> mode m' = mode m"
  by (auto simp: finish_search_def split: if_splits)

lemma search_stage_mode:
  assumes "search_stage ev (m, c) = Inr m'"
  shows "mode m' = mode m"
proof -
  from assms obtain r3 r4 st where
    a: "search_best_A_scale ev m (A_scale_candidates c) (A_zero_point_candidates c) = Inr r3"
    and b: "search_best_B_scale ev (fst r3) (B_scale_candidates c) (B_zero_point_candidates c)
              = Inr r4"
    and f: "foldM (refine_round ev c) (fst r4, snd r3, snd r4) [0..<search_round (fst r4)] = Inr st"
    and e: "finish_search (fst st) = Inr m'"
    by (auto simp: search_stage_def ebind_eq_Inr)
  have "mode (fst st) = mode (fst r4)"
    by (rule foldM_invariant [OF f, where P = "\<lambda>s. mode (fst s) = mode (fst r4)"])
       (simp_all add: refine_round_mode)
  with search_best_A_scale_mode [OF a] search_best_B_scale_mode [OF b] finish_search_mode [OF e]
  show ?thesis
    by simp
qed

lemma hyperparameter_searching_mode:
  assumes "hyperparameter_searching ev m = Inr m'"
  shows "mode m' = mode m"
proof -
  from assms obtain ms c where s: "seed_stage ev m = Inr (ms, c)"
    and r: "search_stage ev (ms, c) = Inr m'"
    by (auto simp: hyperparameter_searching_def ebind_eq_Inr)
  from seed_stage_mode [OF s] search_stage_mode [OF r] show ?thesis
    by simp
qed

lemma map_update_same: "f x = f (xs ! i) \<Longrightarrow> map f (xs[i := x]) = map f xs"
  by (cases "i < length xs") (simp_all add: map_update list_update_same_conv list_update_beyond)

lemma run_hooks_mode: "mode_of (run_hooks md call) = mode_of md"
  by (cases md; cases call) (simp_all add: run_hooks_def mode_of_def)

lemma foldl_run_hooks_mode: "mode_of (foldl run_hooks md calls) = mode_of md"
  by (induction calls arbitrary: md) (simp_all add: run_hooks_mode)

lemma capture_batch_modes:
  "capture_batch cb i ms b = Inr ms' \<Longrightarrow> map mode_of ms' = map mode_of ms"
  by (auto simp: capture_batch_def ebind_eq_Inr intro!: map_update_same foldl_run_hooks_mode)

lemma capture_passes_modes:
  assumes "foldM (capture_batch cb i) ms batches = Inr ms'"
  shows "map mode_of ms' = map mode_of ms"
  by (rule foldM_invariant [OF assms, where P = "\<lambda>s. map mode_of s = map mode_of ms"])
     (simp_all add: capture_batch_modes)

lemma replace_raw_mode: "replace_raw md = Inr md' \<Longrightarrow> mode_of md' = mode_of md"
  by (cases md) (auto simp: replace_raw_def mode_of_def split: option.splits prod.splits)

lemma module_search_mode:
  assumes "keeps_modes cb" and "module_search cb md = Inr md'"
  shows "mode_of md' = mode_of md"
proof (cases md)
  case (MatMulModule m)
  with assms(2) show ?thesis
    by (auto simp: module_search_def ebind_eq_Inr mode_of_def
          dest: hyperparameter_searching_mode)
next
  case (LayerModule l)
  with assms show ?thesis
    by (auto simp: module_search_def ebind_eq_Inr mode_of_def keeps_modes_def)
next
  case (PlainModule a)
  with assms(2) show ?thesis
    by (simp add: module_search_def)
qed

lemma calibrate_module_modes:
  assumes k: "keeps_modes cb" and c: "calibrate_module cb calib_loader ms i = Inr ms'"
  shows "map mode_of ms' = map mode_of ms"
proof (cases "\<not> has_metric (ms ! i) \<or> is_calibrated (ms ! i)")
  case True
  with c show ?thesis
    by (simp add: calibrate_module_def)
next
  case False
  with c obtain ms1 md2 md3 where
    cap: "foldM (capture_batch cb i) ms calib_loader = Inr ms1"
    and rr: "replace_raw (ms1 ! i) = Inr md2"
    and se: "module_search cb md2 = Inr md3"
    and fin: "(if has_prev_layer md3 then reparam cb i (ms1[i := md3]) else Inr (ms1[i := md3]))
               = Inr ms'"
    by (auto simp: calibrate_module_def ebind_eq_Inr)
  have m3: "mode_of md3 = mode_of (ms1 ! i)"
    using replace_raw_mode [OF rr] module_search_mode [OF k se] by simp
  have upd: "map mode_of (ms1[i := md3]) = map mode_of ms1"
    by (rule map_update_same) (rule m3)
  have "map mode_of ms' = map mode_of (ms1[i := md3])"
    using fin k by (auto simp: keeps_modes_def split: if_splits)
  with upd capture_passes_modes [OF cap] show ?thesis
    by simp
qed

lemma calibrate_modules_modes:
  assumes k: "keeps_modes cb" and c: "calibrate_modules cb calib_loader ms n = Inr ms'"
  shows "map mode_of ms' = map mode_of ms"
  by (rule foldM_invariant [OF c [unfolded calibrate_modules_def],
        where P = "\<lambda>s. map mode_of s = map mode_of ms"])
     (simp_all add: calibrate_module_modes [OF k])

lemma set_quant_forward_mode:
  "mode_of (set_quant_forward md)
     = (case mode_of md of None \<Rightarrow> None | Some old \<Rightarrow> Some ''quant_forward'')"
  by (cases md) (auto simp: set_quant_forward_def mode_of_def split: option.splits)

text \<open>
  C6. Provided the searches of the layers and \<^verbatim>\<open>reparam\<close> assign no mode, the
  modes of all modules are, at the start of the calibration of every module and after
  each of its capture passes, the modes the orchestrator found: it assigns no mode in
  the loop. When \<^verbatim>\<open>batching_quant_calib\<close> returns, the loop has run over all
  modules and one final pass has set the mode of every module that has one to
  \<^verbatim>\<open>quant_forward\<close>.
\<close>

theorem C6_global_mode_flip:
  assumes k: "keeps_modes cb"
  shows "(\<forall>n ms_n. calibrate_modules cb calib_loader ms n = Inr ms_n \<longrightarrow>
            map mode_of ms_n = map mode_of ms
            \<and> (\<forall>batches ms_c. foldM (capture_batch cb n) ms_n batches = Inr ms_c \<longrightarrow>
                  map mode_of ms_c = map mode_of ms))
     \<and> (batching_quant_calib cb calib_loader ms = Inr ms' \<longrightarrow>
          (\<exists>ms1. calibrate_modules cb calib_loader ms (length ms) = Inr ms1
              \<and> map mode_of ms1 = map mode_of ms
              \<and> ms' = end_calibration ms1)
          \<and> map mode_of ms'
              = map (\<lambda>md. case mode_of md of None \<Rightarrow> None | Some old \<Rightarrow> Some ''quant_forward'') ms)"
proof -
  have loop: "map mode_of ms_n = map mode_of ms
      \<and> (\<forall>batches ms_c. foldM (capture_batch cb n) ms_n batches = Inr ms_c \<longrightarrow>
            map mode_of ms_c = map mode_of ms)"
    if "calibrate_modules cb calib_loader ms n = Inr ms_n" for n ms_n
    using calibrate_modules_modes [OF k that] capture_passes_modes [of cb n ms_n]
    by simp
  have final: "(\<exists>ms1. calibrate_modules cb calib_loader ms (length ms) = Inr ms1
              \<and> map mode_of ms1 = map mode_of ms
              \<and> ms' = end_calibration ms1)
          \<and> map mode_of ms'
              = map (\<lambda>md. case mode_of md of None \<Rightarrow> None | Some old \<Rightarrow> Some ''quant_forward'') ms"
    if "batching_quant_calib cb calib_loader ms = Inr ms'"
  proof -
    from that obtain ms1 where c: "calibrate_modules cb calib_loader ms (length ms) = Inr ms1"
      and e: "ms' = end_calibration ms1"
      by (auto simp: batching_quant_calib_def ebind_eq_Inr)
    note m1 = calibrate_modules_modes [OF k c]
    have "map mode_of ms'
        = map (\<lambda>md. case md of None \<Rightarrow> None | Some old \<Rightarrow> Some ''quant_forward'')
            (map mode_of ms1)"
      by (simp add: e end_calibration_def set_quant_forward_mode comp_def)
    then have "map mode_of ms'
        = map (\<lambda>md. case mode_of md of None \<Rightarrow> None | Some old \<Rightarrow> Some ''quant_forward'') ms"
      by (simp add: m1 comp_def)
    with c e m1 show ?thesis
      by blast
  qed
  from loop final show ?thesis
    by blast
qed

theorem C6_global_mode_flip_witness:
  "keeps_modes example_collab
   \<and> calibrate_modules example_collab [3, 4] example_modules 1 = Inr example_modules
   \<and> foldM (capture_batch example_collab 1) example_modules [3]
       = Inr [PlainModule None,
              LayerModule (example_layer\<lparr>l_tmp_input := Some [[[[[1]]]]],
                 l_tmp_out := Some [[[[[3]]]]]\<rparr>),
              MatMulModule (searched_operator\<lparr>calibrated := True\<rparr>), PlainModule (Some ''raw'')]
   \<and> batching_quant_calib example_collab [3, 4] example_modules
       = Inr [PlainModule None,
              LayerModule (example_layer\<lparr>l_calibrated := True, l_mode := ''quant_forward'',
                 l_raw_input := Value [[[[1]]], [[[1]]]], l_raw_out := Value [[[[3]]], [[[4]]]]\<rparr>),
              MatMulModule (searched_operator\<lparr>calibrated := True, mode := ''quant_forward''\<rparr>),
              PlainModule (Some ''quant_forward'')]
   \<and> map mode_of
         [PlainModule None,
          LayerModule (example_layer\<lparr>l_tmp_input := Some [[[[[1]]]]],
             l_tmp_out := Some [[[[[3]]]]]\<rparr>),
          MatMulModule (searched_operator\<lparr>calibrated := True\<rparr>), PlainModule (Some ''raw'')]
       = map mode_of example_modules
   \<and> map mode_of
         [PlainModule None,
          LayerModule (example_layer\<lparr>l_calibrated := True, l_mode := ''quant_forward'',
             l_raw_input := Value [[[[1]]], [[[1]]]], l_raw_out := Value [[[[3]]], [[[4]]]]\<rparr>),
          MatMulModule (searched_operator\<lparr>calibrated := True, mode := ''quant_forward''\<rparr>),
          PlainModule (Some ''quant_forward'')]
       = map (\<lambda>md. case mode_of md of None \<Rightarrow> None | Some old \<Rightarrow> Some ''quant_forward'')
           example_modules"
proof -
  have k: "keeps_modes example_collab"
    by (simp add: keeps_modes_def example_collab_def)
  have l: "calibrate_modules example_collab [3, 4] example_modules 1 = Inr example_modules"
    by code_simp
  have c: "foldM (capture_batch example_collab 1) example_modules [3]
       = Inr [PlainModule None,
              LayerModule (example_layer\<lparr>l_tmp_input := Some [[[[[1]]]]],
                 l_tmp_out := Some [[[[[3]]]]]\<rparr>),
              MatMulModule (searched_operator\<lparr>calibrated := True\<rparr>), PlainModule (Some ''raw'')]"
    by code_simp
  have b: "batching_quant_calib example_collab [3, 4] example_modules
       = Inr [PlainModule None,
              LayerModule (example_layer\<lparr>l_calibrated := True, l_mode := ''quant_forward'',
                 l_raw_input := Value [[[[1]]], [[[1]]]], l_raw_out := Value [[[[3]]], [[[4]]]]\<rparr>),
              MatMulModule (searched_operator\<lparr>calibrated := True, mode := ''quant_forward''\<rparr>),
              PlainModule (Some ''quant_forward'')]"
    by code_simp
  note T = C6_global_mode_flip [OF k, of "[3, 4]" example_modules]
  from T l c have m1: "map mode_of
         [PlainModule None,
          LayerModule (example_layer\<lparr>l_tmp_input := Some [[[[[1]]]]],
             l_tmp_out := Some [[[[[3]]]]]\<rparr>),
          MatMulModule (searched_operator\<lparr>calibrated := True\<rparr>), PlainModule (Some ''raw'')]
       = map mode_of example_modules"
    by blast
  from T b have m2: "map mode_of
         [PlainModule None,
          LayerModule (example_layer\<lparr>l_calibrated := True, l_mode := ''quant_forward'',
             l_raw_input := Value [[[[1]]], [[[1]]]], l_raw_out := Value [[[[3]]], [[[4]]]]\<rparr>),
          MatMulModule (searched_operator\<lparr>calibrated := True, mode := ''quant_forward''\<rparr>),
          PlainModule (Some ''quant_forward'')]
       = map (\<lambda>md. case mode_of md of None \<Rightarrow> None | Some old \<Rightarrow> Some ''quant_forward'')
           example_modules"
    by blast
  from k l c b m1 m2 show ?thesis
    by blast
qed

end
